theory Spec2Isabelle
  imports Main "HOL-Library.Sublist" "HOL-Library.Char_ord" "HOL-Library.List_Lexorder"
begin

section \<open>JavaScript values and strings\<close>

text \<open>
  A JavaScript string is modelled as a \<^typ>\<open>string\<close> (a list of code units), so
  \<open>substr(0, p)\<close> is \<^const>\<open>take\<close> and \<open>substr(p)\<close> is \<^const>\<open>drop\<close>. The values a
  caller can hand to the SQL splitter are \<open>undefined\<close>, \<open>null\<close>, a boolean or a string
  (numbers and objects are left out).
\<close>

datatype jsval = JUndefined | JNull | JBool bool | JStr string

text \<open>JavaScript's \<open>ToBoolean\<close>: what \<open>!x\<close> and \<open>x || y\<close> test.\<close>

fun truthy :: "jsval \<Rightarrow> bool" where
  "truthy JUndefined = False"
| "truthy JNull = False"
| "truthy (JBool b) = b"
| "truthy (JStr s) = (s \<noteq> [])"

text \<open>JavaScript's \<open>ToString\<close>, which \<open>indexOf\<close> applies to its argument.\<close>

fun toString :: "jsval \<Rightarrow> string" where
  "toString JUndefined = ''undefined''"
| "toString JNull = ''null''"
| "toString (JBool b) = (if b then ''true'' else ''false'')"
| "toString (JStr s) = s"

fun typeof_string :: "jsval \<Rightarrow> bool" where
  "typeof_string (JStr s) = True"
| "typeof_string v = False"

text \<open>
  \<open>String.prototype.indexOf\<close>: the least position at which the search string starts,
  or \<open>-1\<close>. The empty search string is found at position 0.
\<close>

fun indexOf_from :: "nat \<Rightarrow> string \<Rightarrow> string \<Rightarrow> int" where
  "indexOf_from k [] d = (if d = [] then int k else - 1)"
| "indexOf_from k (c # cs) d =
     (if prefix d (c # cs) then int k else indexOf_from (Suc k) cs d)"

definition indexOf :: "string \<Rightarrow> string \<Rightarrow> int" where
  "indexOf s d = indexOf_from 0 s d"

section \<open>The SQL splitter (migration-sql-parse.js)\<close>

datatype error =
    EmptySqlArgument          \<comment> \<open>\<open>Missing / empty migration SQL argument\<close>\<close>
  | NotAString                \<comment> \<open>\<open>migration SQL must be string\<close>\<close>
  | MissingUpSql string       \<comment> \<open>\<open>cannot run migration, f: missing 'up' SQL\<close>\<close>
  | MissingDownSql string     \<comment> \<open>\<open>cannot run migration, f: missing 'down' SQL\<close>\<close>
  | IOError string            \<comment> \<open>an error of \<open>fs.readdir\<close> or \<open>fs.readFile\<close>\<close>
  | DatabaseError string      \<comment> \<open>an error of the database while executing SQL\<close>
  | UniqueViolation string    \<comment> \<open>the ledger's unique constraint on \<open>name\<close>\<close>
  | TransactionFinished       \<comment> \<open>a statement on a transaction already committed\<close>
  | TypeError string          \<comment> \<open>calling something that is not a function\<close>
  | ReferenceError string     \<comment> \<open>reading an identifier that is not declared\<close>

record payload =
  up :: string
  down :: "string option"

definition kDefaultDelimiter :: string where
  "kDefaultDelimiter = ''\<newline>-- MIGRATION DOWN SQL\<newline>''"

text \<open>
  The module assigns its function to \<open>module.exports\<close> and then sets
  \<open>module.exports.kDefaultDelimiter\<close>. Inside the function, \<open>exports\<close> is still the
  module's initial export object, which never receives that property: reading
  \<open>exports.kDefaultDelimiter\<close> gives \<open>undefined\<close>.
\<close>

definition exports_kDefaultDelimiter :: jsval where
  "exports_kDefaultDelimiter = JUndefined"

text \<open>
  The second argument is what the caller passed; \<open>undefined\<close> (or nothing) selects the
  default parameter value.
\<close>

definition migrationSqlParse :: "jsval \<Rightarrow> jsval \<Rightarrow> error + payload" where
  "migrationSqlParse migrationSql arg =
     (let optDelimiter = (if arg = JUndefined then JStr kDefaultDelimiter else arg) in
      if \<not> truthy migrationSql then Inl EmptySqlArgument
      else if \<not> typeof_string migrationSql then Inl NotAString
      else
        let sqlText = toString migrationSql;
            delimiter = (if truthy optDelimiter then optDelimiter
                         else exports_kDefaultDelimiter);
            delimiterPosition = indexOf sqlText (toString delimiter)
        in if delimiterPosition \<ge> 0
           then Inr \<lparr>up = take (nat delimiterPosition) sqlText,
                     down = Some (drop (nat delimiterPosition) sqlText)\<rparr>
           else Inr \<lparr>up = sqlText, down = None\<rparr>)"

text \<open>The characters the regular expression class \<open>\s\<close> matches, among the code units below 256.\<close>

definition is_whitespace :: "char \<Rightarrow> bool" where
  "is_whitespace c \<longleftrightarrow> of_char c \<in> {9, 10, 11, 12, 13, 32, 160 :: nat}"


section \<open>The world a Migrator runs in\<close>

text \<open>
  A row of the ledger table: the surrogate key \<open>id\<close> and the migration's file name
  (\<open>createdAt\<close> plays no part in the runner and is left out).
\<close>

record entry =
  row_id :: nat
  row_name :: string

text \<open>
  The database as one statement sees it: the ledger table, the data the migrations'
  own SQL works on (an abstract type \<open>'s\<close>), and the session's \<open>search_path\<close>, which
  PostgreSQL sets and rolls back transactionally.
\<close>

record 's dbstate =
  ledger :: "entry list"
  userdata :: 's
  search_path :: string

text \<open>Every call of a file system or database primitive is recorded, in order.\<close>

datatype event =
    EvReadDir
  | EvReadFile string
  | EvSync
  | EvBegin
  | EvCommit
  | EvRollback
  | EvLock
  | EvFindAll
  | EvShowSearchPath
  | EvSetSearchPath string
  | EvSavepoint
  | EvReleaseSavepoint
  | EvRollbackToSavepoint
  | EvExec string
  | EvInsert string
  | EvDelete nat

text \<open>
  The state threaded through a run: the database (\<open>committed\<close> is what has been
  committed, \<open>tx\<close> the working copy of the open transaction, \<open>savepoint\<close> the snapshot
  taken by \<open>SAVEPOINT migrations\<close>, \<open>locked\<close> the table lock, \<open>next_id\<close> the ledger's
  sequence, which no rollback resets), the trace of primitive calls, and the two mutable
  fields of the Migrator instance, \<open>this.migrationFiles_\<close> and \<open>this.searchPath_\<close>
  (\<open>None\<close> is \<open>null\<close>).
\<close>

record 's world =
  committed :: "'s dbstate"
  tx :: "'s dbstate option"
  savepoint :: "'s dbstate option"
  locked :: bool
  next_id :: nat
  trace :: "event list"
  this_migrationFiles :: "string list option"
  this_searchPath :: "string option"

text \<open>
  What a run does not change: the configured pattern (\<open>migrationFilePattern_.test\<close>) and
  schema (\<open>schema_\<close>), what \<open>fs.readdir\<close> and \<open>fs.readFile\<close> answer, and what the
  database does with a piece of migration SQL: the data it leaves behind and the error it
  raises, if any. Migration SQL is taken to work on \<open>userdata\<close> only. The runner
  writes the path into \<open>set search_path to ...\<close> as it is, without quoting, so the
  database may reject the statement: \<open>set_search_path\<close> gives the error it answers with,
  if any (PostgreSQL shows an empty path as \<open>""\<close> and rejects that text as a path).
  The other statements the runner issues itself (lock, savepoints, ledger reads and
  writes) fail only where stated below.
\<close>

record 's env =
  pattern :: "string \<Rightarrow> bool"
  schema :: string
  readdir :: "error + string list"
  readFile :: "string \<Rightarrow> error + string"
  exec :: "string \<Rightarrow> 's \<Rightarrow> error option \<times> 's"
  set_search_path :: "string \<Rightarrow> error option"

text \<open>
  An asynchronous operation takes the world and gives back the world and either the error
  its promise rejects with (\<open>Inl\<close>) or the value it resolves to (\<open>Inr\<close>).
\<close>

type_synonym ('s, 'a) action = "'s world \<Rightarrow> (error + 'a) \<times> 's world"

definition resolve :: "'a \<Rightarrow> ('s, 'a) action" where
  "resolve v w = (Inr v, w)"

definition reject :: "error \<Rightarrow> ('s, 'a) action" where
  "reject err w = (Inl err, w)"

text \<open>\<open>await m\<close> followed by the rest, or \<open>m.then(f)\<close>.\<close>

definition andThen :: "('s, 'a) action \<Rightarrow> ('a \<Rightarrow> ('s, 'b) action) \<Rightarrow> ('s, 'b) action" where
  "andThen m f w = (case m w of (Inl err, w') \<Rightarrow> (Inl err, w') | (Inr v, w') \<Rightarrow> f v w')"

text \<open>\<open>try { m } catch (error) { h }\<close>, or \<open>m.catch(h)\<close>.\<close>

definition catchError :: "('s, 'a) action \<Rightarrow> (error \<Rightarrow> ('s, 'a) action) \<Rightarrow> ('s, 'a) action" where
  "catchError m h w = (case m w of (Inl err, w') \<Rightarrow> h err w' | (Inr v, w') \<Rightarrow> (Inr v, w'))"

text \<open>\<open>for (const x of xs) { await body(x) }\<close>, and Bluebird's \<open>Promise.each\<close>.\<close>

fun forEach :: "'a list \<Rightarrow> ('a \<Rightarrow> ('s, unit) action) \<Rightarrow> ('s, unit) action" where
  "forEach [] body = resolve ()"
| "forEach (x # xs) body = andThen (body x) (\<lambda>_. forEach xs body)"

definition emit :: "event \<Rightarrow> 's world \<Rightarrow> 's world" where
  "emit ev w = w\<lparr>trace := trace w @ [ev]\<rparr>"

subsection \<open>Sequelize's transactions\<close>

text \<open>
  \<open>transaction.commit()\<close>: what the transaction did becomes the committed state and the
  lock is released. A transaction that is already finished rejects.
\<close>

definition transaction_commit :: "('s, unit) action" where
  "transaction_commit w =
     (case tx w of
        None \<Rightarrow> (Inl TransactionFinished, w)
      | Some t \<Rightarrow> (Inr (), emit EvCommit
                     (w\<lparr>committed := t, tx := None, savepoint := None, locked := False\<rparr>)))"

definition transaction_rollback :: "'s world \<Rightarrow> 's world" where
  "transaction_rollback w = emit EvRollback (w\<lparr>tx := None, savepoint := None, locked := False\<rparr>)"

text \<open>
  \<open>sequelize.transaction(autoCallback)\<close>: begins a transaction and runs the callback.
  When the callback resolves the transaction is committed; when it rejects the
  transaction is rolled back unless it is already finished, and the error is passed on.
\<close>

definition transaction :: "('s, 'a) action \<Rightarrow> ('s, 'a) action" where
  "transaction autoCallback w =
     (case autoCallback (emit EvBegin (w\<lparr>tx := Some (committed w), savepoint := None\<rparr>)) of
        (Inr v, w1) \<Rightarrow>
          (case transaction_commit w1 of
             (Inr _, w2) \<Rightarrow> (Inr v, w2)
           | (Inl err, w2) \<Rightarrow> (Inl err, w2))
      | (Inl err, w1) \<Rightarrow>
          (if tx w1 = None then (Inl err, w1) else (Inl err, transaction_rollback w1)))"

text \<open>A statement sent on the transaction's connection.\<close>

definition statement :: "event \<Rightarrow> ('s dbstate \<Rightarrow> 's dbstate) \<Rightarrow> ('s, unit) action" where
  "statement ev f w =
     (case tx w of
        None \<Rightarrow> (Inl TransactionFinished, w)
      | Some t \<Rightarrow> (Inr (), emit ev (w\<lparr>tx := Some (f t)\<rparr>)))"


section \<open>The runner (Migrator.js)\<close>

text \<open>
  The default file pattern, \<open>/^\d{14}_\d{4}_[\w-_]+\.sql$/\<close>: fourteen digits, an
  underscore, four digits, an underscore, one or more word characters, hyphens or
  underscores, and the suffix \<open>.sql\<close>.
\<close>

definition is_digit :: "char \<Rightarrow> bool" where
  "is_digit c \<longleftrightarrow> 48 \<le> (of_char c :: nat) \<and> (of_char c :: nat) \<le> 57"

definition is_word :: "char \<Rightarrow> bool" where
  "is_word c \<longleftrightarrow> is_digit c \<or> c = CHR ''_''
     \<or> (65 \<le> (of_char c :: nat) \<and> (of_char c :: nat) \<le> 90)
     \<or> (97 \<le> (of_char c :: nat) \<and> (of_char c :: nat) \<le> 122)"

definition kDefaults_pattern :: "string \<Rightarrow> bool" where
  "kDefaults_pattern f \<longleftrightarrow>
     (let slug = take (length f - 24) (drop 20 f) in
      24 < length f
      \<and> list_all is_digit (take 14 f)
      \<and> f ! 14 = CHR ''_''
      \<and> list_all is_digit (take 4 (drop 15 f))
      \<and> f ! 19 = CHR ''_''
      \<and> list_all (\<lambda>c. is_word c \<or> c = CHR ''-'') slug
      \<and> drop (length f - 4) f = ''.sql'')"

definition difference :: "'a list \<Rightarrow> 'a list \<Rightarrow> 'a list" where
  "difference a b = filter (\<lambda>x. x \<notin> set b) a"

text \<open>
  \<open>migrationFiles()\<close>: answers from \<open>this.migrationFiles_\<close> when that field holds a list;
  otherwise lists the directory, keeps the names the pattern accepts and sorts them. No
  statement of the class assigns the field after the constructor has set it to \<open>null\<close>.
\<close>

definition migrationFiles :: "'s env \<Rightarrow> ('s, string list) action" where
  "migrationFiles e w =
     (case this_migrationFiles w of
        Some files \<Rightarrow> (Inr files, w)
      | None \<Rightarrow>
          (case readdir e of
             Inl err \<Rightarrow> (Inl err, emit EvReadDir w)
           | Inr files \<Rightarrow> (Inr (sort (filter (pattern e) files)), emit EvReadDir w)))"

text \<open>
  \<open>executed(optTransaction)\<close>: the ledger's rows by ascending \<open>id\<close>, read inside the
  transaction when one is given and from the committed state otherwise.
\<close>

definition executed :: "bool \<Rightarrow> ('s, entry list) action" where
  "executed optTransaction w =
     (if optTransaction
      then (case tx w of
              None \<Rightarrow> (Inl TransactionFinished, w)
            | Some t \<Rightarrow> (Inr (sort_key row_id (ledger t)), emit EvFindAll w))
      else (Inr (sort_key row_id (ledger (committed w))), emit EvFindAll w))"

text \<open>
  \<open>recentlyExecuted(optAmount = 1, optTransaction)\<close>: \<open>slice(-amount)\<close> with
  \<open>amount = Math.max(1, optAmount)\<close> keeps the last \<open>amount\<close> rows.
\<close>

definition recentlyExecuted :: "int option \<Rightarrow> bool \<Rightarrow> ('s, entry list) action" where
  "recentlyExecuted optAmount optTransaction =
     (let amount = max 1 (case optAmount of None \<Rightarrow> 1 | Some n \<Rightarrow> n) in
      andThen (executed optTransaction)
        (\<lambda>executedMigrations.
           resolve (drop (length executedMigrations - nat amount) executedMigrations)))"

text \<open>
  \<open>pending(optTransaction)\<close>: both reads are started, the directory first, before either
  is awaited. The unsaved model instances it builds carry a name only, so the result is
  the list of names. When both reads fail, the ledger's read has failed first (it is
  refused at once, on a transaction that is finished) and its error is reported.
\<close>

definition pending :: "'s env \<Rightarrow> bool \<Rightarrow> ('s, string list) action" where
  "pending e optTransaction w =
     (case migrationFiles e w of (r1, w1) \<Rightarrow>
      case executed optTransaction w1 of (r2, w2) \<Rightarrow>
        (case r2 of
           Inl err \<Rightarrow> (Inl err, w2)
         | Inr executedMigrations \<Rightarrow>
             (case r1 of
                Inl err \<Rightarrow> (Inl err, w2)
              | Inr files \<Rightarrow>
                  (let executedFileNames = map row_name executedMigrations;
                       pendingMigrationFileNames = difference files executedFileNames
                   in (Inr (sort pendingMigrationFileNames), w2)))))"

definition ensureTableExists :: "('s, unit) action" where
  "ensureTableExists w = (Inr (), emit EvSync w)"

definition lockTable :: "('s, unit) action" where
  "lockTable w =
     (case tx w of
        None \<Rightarrow> (Inl TransactionFinished, w)
      | Some t \<Rightarrow> (Inr (), emit EvLock (w\<lparr>locked := True\<rparr>)))"

text \<open>
  \<open>parseMigration_(name)\<close>: reads the file and hands its text to the splitter, which
  \<open>then\<close> calls with that one argument.
\<close>

definition parseMigration :: "'s env \<Rightarrow> string \<Rightarrow> ('s, payload) action" where
  "parseMigration e migrationFileName w =
     (case readFile e migrationFileName of
        Inl err \<Rightarrow> (Inl err, emit (EvReadFile migrationFileName) w)
      | Inr sql \<Rightarrow> (migrationSqlParse (JStr sql) JUndefined,
                     emit (EvReadFile migrationFileName) w))"

definition savePoint :: "('s, unit) action" where
  "savePoint w =
     (case tx w of
        None \<Rightarrow> (Inl TransactionFinished, w)
      | Some t \<Rightarrow> (Inr (), emit EvSavepoint (w\<lparr>savepoint := Some t\<rparr>)))"

definition releaseSavePoint :: "('s, unit) action" where
  "releaseSavePoint w =
     (case tx w of
        None \<Rightarrow> (Inl TransactionFinished, w)
      | Some t \<Rightarrow>
          (case savepoint w of
             None \<Rightarrow> (Inl (DatabaseError ''savepoint does not exist''), emit EvReleaseSavepoint w)
           | Some sp \<Rightarrow> (Inr (), emit EvReleaseSavepoint (w\<lparr>savepoint := None\<rparr>))))"

definition rollbackToSavePoint :: "('s, unit) action" where
  "rollbackToSavePoint w =
     (case tx w of
        None \<Rightarrow> (Inl TransactionFinished, w)
      | Some t \<Rightarrow>
          (case savepoint w of
             None \<Rightarrow> (Inl (DatabaseError ''savepoint does not exist''), emit EvRollbackToSavepoint w)
           | Some sp \<Rightarrow> (Inr (), emit EvRollbackToSavepoint (w\<lparr>tx := Some sp\<rparr>))))"

text \<open>\<open>SHOW search_path\<close>, stored in \<open>this.searchPath_\<close>.\<close>

definition saveSearchPath :: "('s, unit) action" where
  "saveSearchPath w =
     (case tx w of
        None \<Rightarrow> (Inl TransactionFinished, w)
      | Some t \<Rightarrow> (Inr (), emit EvShowSearchPath (w\<lparr>this_searchPath := Some (search_path t)\<rparr>)))"

text \<open>
  \<open>setSearchPath_(searchPath)\<close> does nothing for \<open>null\<close> and for the empty string.
  Otherwise it sends \<open>set search_path to\<close> followed by the path; when the database
  rejects the statement the promise rejects with the database's error.
\<close>

definition setSearchPath :: "'s env \<Rightarrow> string option \<Rightarrow> ('s, unit) action" where
  "setSearchPath e searchPath w =
     (case searchPath of
        None \<Rightarrow> (Inr (), w)
      | Some p \<Rightarrow>
          (if p = [] then (Inr (), w)
           else
             (case tx w of
                None \<Rightarrow> (Inl TransactionFinished, w)
              | Some t \<Rightarrow>
                  (case set_search_path e p of
                     Some err \<Rightarrow> (Inl err, emit (EvSetSearchPath p) w)
                   | None \<Rightarrow>
                       (Inr (), emit (EvSetSearchPath p)
                                  (w\<lparr>tx := Some (t\<lparr>search_path := p\<rparr>)\<rparr>))))))"

text \<open>
  \<open>sequelize.query(sql, {raw: true, transaction})\<close> for a migration's SQL: the database
  does what \<open>exec\<close> says, and the promise rejects with the error \<open>exec\<close> reports.
\<close>

definition query :: "'s env \<Rightarrow> string \<Rightarrow> ('s, unit) action" where
  "query e sql w =
     (case tx w of
        None \<Rightarrow> (Inl TransactionFinished, w)
      | Some t \<Rightarrow>
          (case exec e sql (userdata t) of (r, u) \<Rightarrow>
             ((case r of None \<Rightarrow> Inr () | Some err \<Rightarrow> Inl err),
              emit (EvExec sql) (w\<lparr>tx := Some (t\<lparr>userdata := u\<rparr>)\<rparr>))))"

text \<open>
  \<open>migration.save({transaction})\<close> inserts a row with the next \<open>id\<close>; the column \<open>name\<close> is
  unique.
\<close>

definition save :: "string \<Rightarrow> ('s, unit) action" where
  "save migration_name w =
     (case tx w of
        None \<Rightarrow> (Inl TransactionFinished, w)
      | Some t \<Rightarrow>
          (if migration_name \<in> set (map row_name (ledger t))
           then (Inl (UniqueViolation migration_name),
                 emit (EvInsert migration_name) (w\<lparr>next_id := Suc (next_id w)\<rparr>))
           else (Inr (),
                 emit (EvInsert migration_name)
                   (w\<lparr>tx := Some (t\<lparr>ledger := ledger t @
                                      [\<lparr>row_id = next_id w, row_name = migration_name\<rparr>]\<rparr>),
                      next_id := Suc (next_id w)\<rparr>))))"

text \<open>\<open>migration.destroy({transaction})\<close> deletes the row with the instance's \<open>id\<close>.\<close>

definition destroy :: "entry \<Rightarrow> ('s, unit) action" where
  "destroy migration =
     statement (EvDelete (row_id migration))
       (\<lambda>t. t\<lparr>ledger := filter (\<lambda>r. row_id r \<noteq> row_id migration) (ledger t)\<rparr>)"

text \<open>One turn of the loop of \<open>migrationsUp_\<close>.\<close>

definition migrationUp :: "'s env \<Rightarrow> string \<Rightarrow> ('s, unit) action" where
  "migrationUp e migration_name =
     andThen (parseMigration e migration_name) (\<lambda>migrationSql.
       let sql = up migrationSql in
       if sql = [] then reject (MissingUpSql migration_name)
       else
         andThen savePoint (\<lambda>_.
         andThen (catchError (query e sql) (\<lambda>error.
                    andThen rollbackToSavePoint (\<lambda>_.
                    andThen transaction_commit (\<lambda>_.
                    reject error)))) (\<lambda>_.
         andThen releaseSavePoint (\<lambda>_.
         save migration_name))))"

definition migrationsUp :: "'s env \<Rightarrow> string list \<Rightarrow> ('s, string list) action" where
  "migrationsUp e migrations =
     andThen (forEach migrations (migrationUp e)) (\<lambda>_. resolve migrations)"

text \<open>
  One turn of the loop of \<open>migrationsDown_\<close>. \<open>!sql\<close> holds for \<open>null\<close> and for the empty
  string.
\<close>

definition migrationDown :: "'s env \<Rightarrow> entry \<Rightarrow> ('s, unit) action" where
  "migrationDown e migration =
     andThen (parseMigration e (row_name migration)) (\<lambda>migrationSql.
       case down migrationSql of
         None \<Rightarrow> reject (MissingDownSql (row_name migration))
       | Some sql \<Rightarrow>
           if sql = [] then reject (MissingDownSql (row_name migration))
           else
             andThen savePoint (\<lambda>_.
             andThen (catchError (query e sql) (\<lambda>error.
                        andThen rollbackToSavePoint (\<lambda>_.
                        andThen transaction_commit (\<lambda>_.
                        reject error)))) (\<lambda>_.
             andThen releaseSavePoint (\<lambda>_.
             destroy migration))))"

definition migrationsDown :: "'s env \<Rightarrow> entry list \<Rightarrow> ('s, entry list) action" where
  "migrationsDown e migrations =
     andThen (forEach migrations (migrationDown e)) (\<lambda>_. resolve migrations)"

text \<open>
  \<open>up()\<close>. The result \<open>None\<close> is \<open>null\<close>. The \<open>catch\<close> block logs and throws the error it
  caught, so it is left out, as is all logging.
\<close>

definition Migrator_up :: "'s env \<Rightarrow> ('s, string list option) action" where
  "Migrator_up e =
     andThen ensureTableExists (\<lambda>_.
     transaction (
       andThen lockTable (\<lambda>_.
       andThen (pending e True) (\<lambda>pendingMigrations.
         if length pendingMigrations = 0 then resolve None
         else
           andThen saveSearchPath (\<lambda>_.
           andThen (setSearchPath e (Some (schema e))) (\<lambda>_.
           andThen (migrationsUp e pendingMigrations) (\<lambda>migrations.
           andThen (\<lambda>w. setSearchPath e (this_searchPath w) w) (\<lambda>_.
           andThen (\<lambda>w. (Inr (), w\<lparr>this_searchPath := None\<rparr>)) (\<lambda>_.
           resolve (Some migrations))))))))))"

text \<open>\<open>down(optAmount = 1)\<close>.\<close>

definition Migrator_down :: "'s env \<Rightarrow> int option \<Rightarrow> ('s, string list option) action" where
  "Migrator_down e optAmount =
     andThen ensureTableExists (\<lambda>_.
     transaction (
       andThen lockTable (\<lambda>_.
       andThen (recentlyExecuted optAmount True) (\<lambda>recent.
         if length recent = 0 then resolve None
         else
           let migrationsToUndo = rev recent in
           andThen saveSearchPath (\<lambda>_.
           andThen (migrationsDown e migrationsToUndo) (\<lambda>migrations.
           andThen (\<lambda>w. setSearchPath e (this_searchPath w) w) (\<lambda>_.
           andThen (\<lambda>w. (Inr (), w\<lparr>this_searchPath := None\<rparr>)) (\<lambda>_.
           resolve (Some (map row_name migrations))))))))))"


section \<open>The promise-chain runner (the second Migrator source file)\<close>

text \<open>
  The second source file of the class requires the same modules as \<open>Migrator.js\<close> and
  nothing else. It calls \<open>Promise.each\<close> and \<open>.spread\<close>, which Bluebird's promises have and
  the language's own \<open>Promise\<close> has not, so its behaviour depends on which of the two the
  global \<open>Promise\<close> is. Its \<open>migrationFiles\<close>, \<open>executed\<close> and the statements it sends
  are those of \<open>Migrator.js\<close>, and are shared here.
\<close>

datatype promise_library = Native | Bluebird

text \<open>
  \<open>parseMigration_\<close> calls \<open>readFile\<close>, an identifier the file never declares (the file
  requires \<open>fs\<close> and \<open>Migrator.js\<close> calls \<open>fs.readFile\<close>). The promise's executor throws
  a \<open>ReferenceError\<close> before any file is read, and the promise rejects with it.
\<close>

definition parseMigration_chain :: "string \<Rightarrow> ('s, payload) action" where
  "parseMigration_chain migrationFileName = reject (ReferenceError ''readFile'')"

text \<open>
  \<open>pending\<close>: \<open>Promise.all([...])\<close> starts both reads; \<open>.spread\<close> is then called on its
  result.
\<close>

definition pending_chain :: "promise_library \<Rightarrow> 's env \<Rightarrow> bool \<Rightarrow> ('s, string list) action" where
  "pending_chain lib e optTransaction w =
     (case lib of
        Bluebird \<Rightarrow> pending e optTransaction w
      | Native \<Rightarrow>
          (case migrationFiles e w of (r1, w1) \<Rightarrow>
           case executed optTransaction w1 of (r2, w2) \<Rightarrow>
             (Inl (TypeError ''spread''), w2)))"

definition recentlyExecuted_chain :: "int option \<Rightarrow> bool \<Rightarrow> ('s, entry list) action" where
  "recentlyExecuted_chain optAmount optTransaction =
     (let amount = max 1 (case optAmount of None \<Rightarrow> 1 | Some n \<Rightarrow> n) in
      andThen (executed optTransaction)
        (\<lambda>executedMigrations.
           resolve (drop (length executedMigrations - nat amount) executedMigrations)))"

text \<open>
  The callback \<open>migrationsUp_\<close> hands to \<open>Promise.each\<close>. Its \<open>catch\<close> follows the
  savepoint and the query, so it handles a failure of either.
\<close>

definition migrationUp_chain :: "'s env \<Rightarrow> string \<Rightarrow> ('s, unit) action" where
  "migrationUp_chain e migration_name =
     andThen
       (andThen (parseMigration_chain migration_name) (\<lambda>migrationSql.
          let sql = up migrationSql in
          if sql = [] then reject (MissingUpSql migration_name)
          else
            andThen
              (catchError (andThen savePoint (\<lambda>_. query e sql)) (\<lambda>error.
                 andThen rollbackToSavePoint (\<lambda>_.
                 andThen transaction_commit (\<lambda>_.
                 reject error))))
              (\<lambda>_. releaseSavePoint)))
       (\<lambda>_. save migration_name)"

definition migrationsUp_chain ::
    "promise_library \<Rightarrow> 's env \<Rightarrow> string list \<Rightarrow> ('s, string list) action" where
  "migrationsUp_chain lib e migrations =
     (case lib of
        Native \<Rightarrow> reject (TypeError ''Promise.each'')
      | Bluebird \<Rightarrow>
          andThen (forEach migrations (migrationUp_chain e)) (\<lambda>_. resolve migrations))"

definition migrationDown_chain :: "'s env \<Rightarrow> entry \<Rightarrow> ('s, unit) action" where
  "migrationDown_chain e migration =
     andThen
       (andThen (parseMigration_chain (row_name migration)) (\<lambda>migrationSql.
          case down migrationSql of
            None \<Rightarrow> reject (MissingDownSql (row_name migration))
          | Some sql \<Rightarrow>
              if sql = [] then reject (MissingDownSql (row_name migration))
              else
                andThen
                  (catchError (andThen savePoint (\<lambda>_. query e sql)) (\<lambda>error.
                     andThen rollbackToSavePoint (\<lambda>_.
                     andThen transaction_commit (\<lambda>_.
                     reject error))))
                  (\<lambda>_. releaseSavePoint)))
       (\<lambda>_. destroy migration)"

definition migrationsDown_chain ::
    "promise_library \<Rightarrow> 's env \<Rightarrow> entry list \<Rightarrow> ('s, entry list) action" where
  "migrationsDown_chain lib e migrations =
     (case lib of
        Native \<Rightarrow> reject (TypeError ''Promise.each'')
      | Bluebird \<Rightarrow>
          andThen (forEach migrations (migrationDown_chain e)) (\<lambda>_. resolve migrations))"

definition up_chain :: "promise_library \<Rightarrow> 's env \<Rightarrow> ('s, string list option) action" where
  "up_chain lib e =
     andThen ensureTableExists (\<lambda>_.
     transaction (
       andThen lockTable (\<lambda>_.
       andThen (pending_chain lib e True) (\<lambda>pendingMigrations.
         if length pendingMigrations = 0 then resolve None
         else
           andThen saveSearchPath (\<lambda>_.
           andThen (setSearchPath e (Some (schema e))) (\<lambda>_.
           andThen (migrationsUp_chain lib e pendingMigrations) (\<lambda>migrations.
           andThen (\<lambda>w. setSearchPath e (this_searchPath w) w) (\<lambda>_.
           andThen (\<lambda>w. (Inr (), w\<lparr>this_searchPath := None\<rparr>)) (\<lambda>_.
           resolve (Some migrations))))))))))"

definition down_chain ::
    "promise_library \<Rightarrow> 's env \<Rightarrow> int option \<Rightarrow> ('s, string list option) action" where
  "down_chain lib e optAmount =
     andThen ensureTableExists (\<lambda>_.
     transaction (
       andThen lockTable (\<lambda>_.
       andThen (recentlyExecuted_chain optAmount True) (\<lambda>recent.
         if length recent = 0 then resolve None
         else
           let migrationsToUndo = rev recent in
           andThen saveSearchPath (\<lambda>_.
           andThen (migrationsDown_chain lib e migrationsToUndo) (\<lambda>migrations.
           andThen (\<lambda>w. setSearchPath e (this_searchPath w) w) (\<lambda>_.
           andThen (\<lambda>w. (Inr (), w\<lparr>this_searchPath := None\<rparr>)) (\<lambda>_.
           resolve (Some (map row_name migrations))))))))))"

section \<open>A concrete directory and database\<close>

text \<open>
  Three migration files and one file the pattern rejects. The database keeps, as its
  user data, the list of SQL texts it has executed; it fails on SQL that contains
  \<open>bad\<close>, after doing part of the work, and it rejects the search path \<open>""\<close>.
\<close>

definition m1 :: string where "m1 = ''20200101000000_0001_a.sql''"
definition m2 :: string where "m2 = ''20200102000000_0001_b.sql''"
definition m3 :: string where "m3 = ''20200103000000_0001_c.sql''"

definition demo_exec :: "string \<Rightarrow> string list \<Rightarrow> error option \<times> string list" where
  "demo_exec sql u =
     (if sublist ''bad'' sql then (Some (DatabaseError sql), u @ [''partial''])
      else (None, u @ [sql]))"

text \<open>The second file's content is a parameter: an error, or the file's text.\<close>

definition demo_env :: "(error + string) \<Rightarrow> string list env" where
  "demo_env second =
     \<lparr>pattern = kDefaults_pattern,
      schema = ''public'',
      readdir = Inr [m3, ''README.md'', m1, m2],
      readFile = (\<lambda>f. if f = m1 then Inr (''create a'' @ kDefaultDelimiter @ ''drop a'')
                       else if f = m2 then second
                       else if f = m3 then Inr (''create c'' @ kDefaultDelimiter @ ''drop c'')
                       else Inl (IOError f)),
      exec = demo_exec,
      set_search_path =
        (\<lambda>p. if p = [CHR 0x22, CHR 0x22]
             then Some (DatabaseError ''zero-length delimited identifier'')
             else None)\<rparr>"

definition demo_world :: "string list world" where
  "demo_world =
     \<lparr>committed = \<lparr>ledger = [], userdata = [], search_path = ''app, public''\<rparr>,
      tx = None,
      savepoint = None,
      locked = False,
      next_id = 1,
      trace = [],
      this_migrationFiles = None,
      this_searchPath = None\<rparr>"

text \<open>The same database after the three migrations have been applied.\<close>

definition demo_applied :: "string list world" where
  "demo_applied =
     demo_world\<lparr>committed :=
                  \<lparr>ledger = [\<lparr>row_id = 1, row_name = m1\<rparr>,
                             \<lparr>row_id = 2, row_name = m2\<rparr>,
                             \<lparr>row_id = 3, row_name = m3\<rparr>],
                   userdata = [''create a'', ''create b'', ''create c''],
                   search_path = ''app, public''\<rparr>,
                next_id := 4\<rparr>"

section \<open>Properties of the SQL splitter\<close>

lemma prefix_take_conv: "prefix d s \<longleftrightarrow> take (length d) s = d"
  by (metis append_eq_conv_conj append_take_drop_id prefix_def)

lemma prefix_append_long: "length d \<le> length x \<Longrightarrow> prefix d (x @ y) = prefix d x"
  by (simp add: prefix_take_conv)

lemma indexOf_from_prefix: "prefix d s \<Longrightarrow> indexOf_from k s d = int k"
  by (cases s) auto

text \<open>
  When no occurrence of \<open>d\<close> starts inside \<open>a\<close>, the first occurrence of \<open>d\<close> in
  \<open>a @ d @ b\<close> is the one after \<open>a\<close>.
\<close>

lemma indexOf_from_first:
  "\<forall>i<length a. \<not> prefix d (drop i (a @ d)) \<Longrightarrow>
   indexOf_from k (a @ d @ b) d = int (k + length a)"
proof (induction a arbitrary: k)
  case Nil
  then show ?case by (simp add: indexOf_from_prefix)
next
  case (Cons c a)
  have "\<not> prefix d ((c # a) @ d)" using Cons.prems[rule_format, of 0] by simp
  hence np: "\<not> prefix d (c # a @ d @ b)"
    using prefix_append_long[of d "(c # a) @ d" b] by simp
  have "\<forall>i<length a. \<not> prefix d (drop i (a @ d))"
  proof (intro allI impI)
    fix i assume "i < length a"
    then show "\<not> prefix d (drop i (a @ d))"
      using Cons.prems[rule_format, of "Suc i"] by simp
  qed
  from Cons.IH[OF this] np show ?case by simp
qed

lemma indexOf_from_sublist: "indexOf_from k s d \<ge> 0 \<longleftrightarrow> sublist d s"
  by (induction k s d rule: indexOf_from.induct) (auto simp: sublist_Cons_right)

lemma indexOf_first:
  "\<forall>i<length a. \<not> prefix d (drop i (a @ d)) \<Longrightarrow> indexOf (a @ d @ b) d = int (length a)"
  using indexOf_from_first[of a d 0 b] by (simp add: indexOf_def)

lemma indexOf_absent: "\<not> sublist d s \<Longrightarrow> \<not> indexOf s d \<ge> 0"
  by (simp add: indexOf_def indexOf_from_sublist)

lemma parse_string_found:
  assumes "s = a @ d @ b" "d \<noteq> []" "\<forall>i<length a. \<not> prefix d (drop i (a @ d))"
  shows "migrationSqlParse (JStr s) (JStr d) = Inr \<lparr>up = a, down = Some (d @ b)\<rparr>"
  using assms indexOf_first[of a d b] by (simp add: migrationSqlParse_def Let_def)

lemma parse_string_absent:
  assumes "s \<noteq> []" "d \<noteq> []" "\<not> sublist d s"
  shows "migrationSqlParse (JStr s) (JStr d) = Inr \<lparr>up = s, down = None\<rparr>"
  using assms indexOf_absent[of d s] by (simp add: migrationSqlParse_def Let_def)

lemma parse_empty_delimiter:
  "migrationSqlParse (JStr s) (JStr []) = migrationSqlParse (JStr s) (JStr ''undefined'')"
  by (simp add: migrationSqlParse_def exports_kDefaultDelimiter_def Let_def)

lemma parse_default_delimiter:
  "migrationSqlParse v JUndefined = migrationSqlParse v (JStr kDefaultDelimiter)"
  by (simp add: migrationSqlParse_def)

text \<open>
  Claim C7, as stated: for all strings \<open>s1\<close>, \<open>s2\<close> and every delimiter \<open>d\<close>, if \<open>s1\<close> does
  not contain \<open>d\<close> then splitting \<open>s1 + d + s2\<close> gives \<open>{up: s1, down: d + s2}\<close>. It fails
  when an occurrence of \<open>d\<close> starts inside \<open>s1\<close> and ends inside the delimiter that
  follows: \<open>a\<close> does not contain \<open>aa\<close>, yet \<open>a + aa\<close> is split at position 0.
\<close>

theorem split_overlapping_delimiter_counterexample:
  "\<not> sublist ''aa'' ''a'' \<and>
   migrationSqlParse (JStr (''a'' @ ''aa'' @ '''')) (JStr ''aa'')
     = Inr \<lparr>up = '''', down = Some ''aaa''\<rparr> \<and>
   migrationSqlParse (JStr (''a'' @ ''aa'' @ '''')) (JStr ''aa'')
     \<noteq> Inr \<lparr>up = ''a'', down = Some (''aa'' @ '''')\<rparr>"
  by (simp add: migrationSqlParse_def indexOf_def sublist_Cons_right)

text \<open>
  The same happens with the default delimiter, which begins and ends with a newline.
\<close>

lemma split_default_delimiter_overlap:
  "\<not> sublist kDefaultDelimiter ''\<newline>-- MIGRATION DOWN SQL'' \<and>
   migrationSqlParse
     (JStr (''\<newline>-- MIGRATION DOWN SQL'' @ kDefaultDelimiter @ ''drop table t'')) JUndefined
    = Inr \<lparr>up = '''',
           down = Some (''\<newline>-- MIGRATION DOWN SQL'' @ kDefaultDelimiter @ ''drop table t'')\<rparr>"
  by (simp add: migrationSqlParse_def indexOf_def kDefaultDelimiter_def sublist_Cons_right)

text \<open>
  Claim C7, amended: for all strings \<open>s1\<close>, \<open>s2\<close> and every non-empty delimiter \<open>d\<close>, if no
  occurrence of \<open>d\<close> starts inside \<open>s1\<close> in \<open>s1 + d\<close> (so \<open>s1\<close> does not contain \<open>d\<close>, and no
  end of \<open>s1\<close> together with a beginning of \<open>d\<close> spells \<open>d\<close>), then splitting \<open>s1 + d + s2\<close>
  at \<open>d\<close> gives \<open>{up: s1, down: d + s2}\<close>.
\<close>

theorem split_at_first_delimiter:
  "d \<noteq> [] \<Longrightarrow> \<forall>i<length s1. \<not> prefix d (drop i (s1 @ d)) \<Longrightarrow>
   migrationSqlParse (JStr (s1 @ d @ s2)) (JStr d) = Inr \<lparr>up = s1, down = Some (d @ s2)\<rparr>"
  by (rule parse_string_found) auto

theorem split_at_first_delimiter_witness:
  "''--'' \<noteq> [] \<and>
   migrationSqlParse (JStr (''ab'' @ ''--'' @ ''c'')) (JStr ''--'')
     = Inr \<lparr>up = ''ab'', down = Some (''--'' @ ''c'')\<rparr>"
proof -
  have h: "\<forall>i<length ''ab''. \<not> prefix ''--'' (drop i (''ab'' @ ''--''))"
    by (simp add: All_less_Suc)
  have n: "''--'' \<noteq> []" by simp
  from split_at_first_delimiter[OF n h, of "''c''"] h n show ?thesis by blast
qed

text \<open>
  Claim C8, as stated: for every empty or whitespace-only input the splitter succeeds and
  returns \<open>{up: input, down: null}\<close>. The empty string is rejected by the function's first
  check.
\<close>

theorem split_empty_input_counterexample:
  "migrationSqlParse (JStr '''') JUndefined = Inl EmptySqlArgument \<and>
   migrationSqlParse (JStr '''') JUndefined \<noteq> Inr \<lparr>up = '''', down = None\<rparr>"
  by (simp add: migrationSqlParse_def)

text \<open>
  Claim C8, amended: for every non-empty whitespace-only input the splitter, called with
  the default delimiter, succeeds and returns \<open>{up: input, down: null}\<close>.
\<close>

theorem split_whitespace_only:
  assumes "s \<noteq> []" and "\<forall>c\<in>set s. is_whitespace c"
  shows "migrationSqlParse (JStr s) JUndefined = Inr \<lparr>up = s, down = None\<rparr>"
proof -
  have "CHR ''-'' \<in> set kDefaultDelimiter" by (simp add: kDefaultDelimiter_def)
  moreover have "\<not> is_whitespace CHR ''-''" by (simp add: is_whitespace_def)
  ultimately have "\<not> set kDefaultDelimiter \<subseteq> set s" using assms(2) by auto
  hence "\<not> sublist kDefaultDelimiter s" using set_mono_sublist by blast
  moreover have "kDefaultDelimiter \<noteq> []" by (simp add: kDefaultDelimiter_def)
  ultimately show ?thesis
    using assms(1) parse_string_absent[of s kDefaultDelimiter]
    by (simp add: parse_default_delimiter)
qed

theorem split_whitespace_only_witness:
  "'' \<newline> '' \<noteq> [] \<and> list_all is_whitespace '' \<newline> '' \<and>
   migrationSqlParse (JStr '' \<newline> '') JUndefined = Inr \<lparr>up = '' \<newline> '', down = None\<rparr>"
proof -
  have h: "\<forall>c\<in>set '' \<newline> ''. is_whitespace c" by (simp add: is_whitespace_def)
  have n: "'' \<newline> '' \<noteq> []" by simp
  have l: "list_all is_whitespace '' \<newline> ''" by (simp add: is_whitespace_def)
  from split_whitespace_only[OF n h] l n show ?thesis by blast
qed

text \<open>
  Claim C10: for every non-empty string \<open>s\<close>, splitting \<open>s\<close> with the empty string given
  as the delimiter does what splitting at the string \<open>undefined\<close> does: when \<open>s\<close> does not
  contain \<open>undefined\<close> the result is \<open>{up: s, down: null}\<close> (whether or not \<open>s\<close> contains
  the default delimiter), and otherwise \<open>s\<close> is split at the first occurrence of
  \<open>undefined\<close>.
\<close>

theorem split_empty_delimiter_uses_undefined:
  assumes "s \<noteq> []"
  shows "migrationSqlParse (JStr s) (JStr '''') = migrationSqlParse (JStr s) (JStr ''undefined'') \<and>
   (\<not> sublist ''undefined'' s \<longrightarrow>
      migrationSqlParse (JStr s) (JStr '''') = Inr \<lparr>up = s, down = None\<rparr>) \<and>
   (\<forall>a b. s = a @ ''undefined'' @ b \<and>
          (\<forall>i<length a. \<not> prefix ''undefined'' (drop i (a @ ''undefined''))) \<longrightarrow>
      migrationSqlParse (JStr s) (JStr '''') = Inr \<lparr>up = a, down = Some (''undefined'' @ b)\<rparr>)"
proof (intro conjI allI impI)
  show "migrationSqlParse (JStr s) (JStr '''') = migrationSqlParse (JStr s) (JStr ''undefined'')"
    by (rule parse_empty_delimiter)
next
  assume "\<not> sublist ''undefined'' s"
  with assms show "migrationSqlParse (JStr s) (JStr '''') = Inr \<lparr>up = s, down = None\<rparr>"
    by (simp only: parse_empty_delimiter) (rule parse_string_absent, simp_all)
next
  fix a b
  assume h: "s = a @ ''undefined'' @ b \<and>
          (\<forall>i<length a. \<not> prefix ''undefined'' (drop i (a @ ''undefined'')))"
  have "migrationSqlParse (JStr s) (JStr ''undefined'')
          = Inr \<lparr>up = a, down = Some (''undefined'' @ b)\<rparr>"
    by (rule parse_string_found) (use h in simp_all)
  then show "migrationSqlParse (JStr s) (JStr '''')
          = Inr \<lparr>up = a, down = Some (''undefined'' @ b)\<rparr>"
    by (simp only: parse_empty_delimiter)
qed

theorem split_empty_delimiter_uses_undefined_witness:
  "''x undefined y'' \<noteq> [] \<and>
   migrationSqlParse (JStr ''x undefined y'') (JStr '''')
     = Inr \<lparr>up = ''x '', down = Some ''undefined y''\<rparr>"
proof -
  have n: "''x undefined y'' \<noteq> []" by simp
  have h: "\<forall>i<length ''x ''. \<not> prefix ''undefined'' (drop i (''x '' @ ''undefined''))"
    by (simp add: All_less_Suc)
  have e: "''x undefined y'' = ''x '' @ ''undefined'' @ '' y''" by simp
  from split_empty_delimiter_uses_undefined[OF n] have
    "\<forall>a b. ''x undefined y'' = a @ ''undefined'' @ b \<and>
          (\<forall>i<length a. \<not> prefix ''undefined'' (drop i (a @ ''undefined''))) \<longrightarrow>
      migrationSqlParse (JStr ''x undefined y'') (JStr '''')
        = Inr \<lparr>up = a, down = Some (''undefined'' @ b)\<rparr>"
    by blast
  from this[rule_format, of "''x ''" "'' y''"] e h
  have "migrationSqlParse (JStr ''x undefined y'') (JStr '''')
     = Inr \<lparr>up = ''x '', down = Some (''undefined'' @ '' y'')\<rparr>" by blast
  then show ?thesis by simp
qed

section \<open>Properties of the runner\<close>

lemmas action_defs = andThen_def catchError_def resolve_def reject_def emit_def
lemmas stmt_defs = parseMigration_def savePoint_def query_def releaseSavePoint_def
  rollbackToSavePoint_def transaction_commit_def save_def destroy_def statement_def

lemma migrationUp_ok:
  assumes "tx w = Some t" "readFile e m = Inr s"
    and "migrationSqlParse (JStr s) JUndefined = Inr p" "up p \<noteq> []"
    and "exec e (up p) (userdata t) = (None, u)"
    and "m \<notin> row_name ` set (ledger t)"
  shows "migrationUp e m w =
    (Inr (), w\<lparr>tx := Some (t\<lparr>ledger := ledger t @ [\<lparr>row_id = next_id w, row_name = m\<rparr>],
                               userdata := u\<rparr>),
               savepoint := None, next_id := Suc (next_id w),
               trace := trace w @ [EvReadFile m, EvSavepoint, EvExec (up p),
                                   EvReleaseSavepoint, EvInsert m]\<rparr>)"
  using assms by (simp add: migrationUp_def action_defs stmt_defs Let_def)

lemma migrationUp_fail:
  assumes "tx w = Some t" "readFile e m = Inr s"
    and "migrationSqlParse (JStr s) JUndefined = Inr p" "up p \<noteq> []"
    and "exec e (up p) (userdata t) = (Some err, u)"
  shows "migrationUp e m w =
    (Inl err, w\<lparr>committed := t, tx := None, savepoint := None, locked := False,
                trace := trace w @ [EvReadFile m, EvSavepoint, EvExec (up p),
                                    EvRollbackToSavepoint, EvCommit]\<rparr>)"
  using assms by (simp add: migrationUp_def action_defs stmt_defs Let_def)

lemma migrationUp_success:
  assumes "migrationUp e m w = (Inr (), w1)" "tx w = Some t"
  shows "\<exists>t1. tx w1 = Some t1 \<and> map row_name (ledger t1) = map row_name (ledger t) @ [m]
           \<and> this_migrationFiles w1 = this_migrationFiles w"
  using assms
  by (auto simp: migrationUp_def action_defs stmt_defs Let_def
           split: sum.splits prod.splits option.splits if_splits)

lemma forEach_up_success:
  "forEach ms (migrationUp e) w = (Inr (), w1) \<Longrightarrow> tx w = Some t \<Longrightarrow>
   \<exists>t1. tx w1 = Some t1 \<and> map row_name (ledger t1) = map row_name (ledger t) @ ms
        \<and> this_migrationFiles w1 = this_migrationFiles w"
proof (induction ms arbitrary: w t)
  case Nil
  then show ?case by (simp add: resolve_def)
next
  case (Cons m ms)
  from Cons.prems(1) obtain w' where
    step: "migrationUp e m w = (Inr (), w')" and rest: "forEach ms (migrationUp e) w' = (Inr (), w1)"
    by (auto simp: andThen_def split: prod.splits sum.splits)
  from migrationUp_success[OF step Cons.prems(2)] obtain t' where
    t': "tx w' = Some t'" "map row_name (ledger t') = map row_name (ledger t) @ [m]"
        "this_migrationFiles w' = this_migrationFiles w"
    by blast
  from Cons.IH[OF rest t'(1)] t' show ?case by auto
qed

lemma migrationFiles_frame:
  "this_migrationFiles w' = this_migrationFiles w \<Longrightarrow>
   fst (migrationFiles e w') = fst (migrationFiles e w)"
  by (simp add: migrationFiles_def split: option.splits sum.splits)

lemma migrationFiles_world:
  "snd (migrationFiles e w) =
     (if this_migrationFiles w = None then emit EvReadDir w else w)"
  by (simp add: migrationFiles_def split: option.splits sum.splits)

lemma set_sort_key_names: "set (map row_name (sort_key row_id l)) = row_name ` set l"
  by simp

text \<open>A run of up that finds every catalogued file in the ledger changes the trace only.\<close>

lemma up_nothing_pending:
  assumes "fst (migrationFiles e w) = Inr files"
    and "set files \<subseteq> row_name ` set (ledger (committed w))"
  shows "Migrator_up e w =
    (Inr None, w\<lparr>tx := None, savepoint := None, locked := False,
                 trace := trace w @ [EvSync, EvBegin, EvLock]
                    @ (if this_migrationFiles w = None then [EvReadDir] else [])
                    @ [EvFindAll, EvCommit]\<rparr>)"
proof -
  have d: "difference files (map row_name (sort_key row_id (ledger (committed w)))) = []"
    using assms(2) by (auto simp: difference_def filter_empty_conv)
  show ?thesis
    using assms(1) d
    by (auto simp: Migrator_up_def ensureTableExists_def transaction_def lockTable_def
        pending_def migrationFiles_def executed_def action_defs transaction_commit_def Let_def
        split: option.splits sum.splits)
qed

lemma andThen_InrE:
  assumes "andThen m f w = (Inr v, w1)"
  obtains x w' where "m w = (Inr x, w')" "f x w' = (Inr v, w1)"
  using assms by (auto simp: andThen_def split: prod.splits sum.splits)

lemma saveSearchPath_success:
  "saveSearchPath w = (Inr x, w') \<Longrightarrow>
   tx w' = tx w \<and> this_migrationFiles w' = this_migrationFiles w"
  by (auto simp: saveSearchPath_def emit_def split: option.splits)

lemma setSearchPath_success:
  "setSearchPath e p w = (Inr x, w') \<Longrightarrow> tx w = Some t \<Longrightarrow>
   \<exists>t'. tx w' = Some t' \<and> ledger t' = ledger t \<and> userdata t' = userdata t
      \<and> this_migrationFiles w' = this_migrationFiles w"
  by (auto simp: setSearchPath_def emit_def split: option.splits if_splits)

lemma up_body_success:
  assumes "andThen saveSearchPath (\<lambda>_.
           andThen (setSearchPath e (Some sch)) (\<lambda>_.
           andThen (migrationsUp e pend) (\<lambda>migrations.
           andThen (\<lambda>w. setSearchPath e (this_searchPath w) w) (\<lambda>_.
           andThen (\<lambda>w. (Inr (), w\<lparr>this_searchPath := None\<rparr>)) (\<lambda>_.
           resolve (Some migrations)))))) w = (Inr r, w1)"
    and "tx w = Some t"
  shows "\<exists>t1. tx w1 = Some t1 \<and> map row_name (ledger t1) = map row_name (ledger t) @ pend
           \<and> this_migrationFiles w1 = this_migrationFiles w"
proof -
  from assms(1) obtain x1 wa where a: "saveSearchPath w = (Inr x1, wa)"
    and r1: "andThen (setSearchPath e (Some sch)) (\<lambda>_.
           andThen (migrationsUp e pend) (\<lambda>migrations.
           andThen (\<lambda>w. setSearchPath e (this_searchPath w) w) (\<lambda>_.
           andThen (\<lambda>w. (Inr (), w\<lparr>this_searchPath := None\<rparr>)) (\<lambda>_.
           resolve (Some migrations))))) wa = (Inr r, w1)"
    by (rule andThen_InrE)
  from r1 obtain x2 wb where b: "setSearchPath e (Some sch) wa = (Inr x2, wb)"
    and r2: "andThen (migrationsUp e pend) (\<lambda>migrations.
           andThen (\<lambda>w. setSearchPath e (this_searchPath w) w) (\<lambda>_.
           andThen (\<lambda>w. (Inr (), w\<lparr>this_searchPath := None\<rparr>)) (\<lambda>_.
           resolve (Some migrations)))) wb = (Inr r, w1)"
    by (rule andThen_InrE)
  from r2 obtain ms wc where c: "migrationsUp e pend wb = (Inr ms, wc)"
    and r3: "andThen (\<lambda>w. setSearchPath e (this_searchPath w) w) (\<lambda>_.
           andThen (\<lambda>w. (Inr (), w\<lparr>this_searchPath := None\<rparr>)) (\<lambda>_.
           resolve (Some ms))) wc = (Inr r, w1)"
    by (rule andThen_InrE)
  from r3 obtain x4 wd where d: "setSearchPath e (this_searchPath wc) wc = (Inr x4, wd)"
    and r4: "andThen (\<lambda>w. (Inr (), w\<lparr>this_searchPath := None\<rparr>)) (\<lambda>_.
           resolve (Some ms)) wd = (Inr r, w1)"
    by (rule andThen_InrE)
  from r4 have w1: "w1 = wd\<lparr>this_searchPath := None\<rparr>"
    by (auto simp: andThen_def resolve_def)
  from saveSearchPath_success[OF a] assms(2)
  have ta: "tx wa = Some t" "this_migrationFiles wa = this_migrationFiles w" by simp_all
  from setSearchPath_success[OF b ta(1)] ta(2) obtain tb where
    tb: "tx wb = Some tb" "ledger tb = ledger t" "this_migrationFiles wb = this_migrationFiles w"
    by auto
  from c have "forEach pend (migrationUp e) wb = (Inr (), wc)"
    by (auto simp: migrationsUp_def andThen_def resolve_def split: prod.splits sum.splits)
  from forEach_up_success[OF this tb(1)] tb obtain tc where
    tc: "tx wc = Some tc" "map row_name (ledger tc) = map row_name (ledger t) @ pend"
        "this_migrationFiles wc = this_migrationFiles w"
    by auto
  from setSearchPath_success[OF d tc(1)] tc obtain td where
    td: "tx wd = Some td" "map row_name (ledger td) = map row_name (ledger t) @ pend"
        "this_migrationFiles wd = this_migrationFiles w"
    by auto
  with w1 show ?thesis by simp
qed

lemma pending_in_tx:
  "tx w = Some t \<Longrightarrow>
   pending e True w =
     ((case fst (migrationFiles e w) of
         Inl err \<Rightarrow> Inl err
       | Inr files \<Rightarrow>
           Inr (sort (difference files (map row_name (sort_key row_id (ledger t)))))),
      emit EvFindAll (snd (migrationFiles e w)))"
  by (auto simp: pending_def executed_def migrationFiles_def emit_def Let_def
           split: option.splits sum.splits prod.splits)

lemma transaction_success:
  assumes "transaction cb w = (Inr v, w1)"
  obtains w' t' where
    "cb (emit EvBegin (w\<lparr>tx := Some (committed w), savepoint := None\<rparr>)) = (Inr v, w')"
    "tx w' = Some t'"
    "w1 = emit EvCommit (w'\<lparr>committed := t', tx := None, savepoint := None, locked := False\<rparr>)"
  using assms
  by (auto simp: transaction_def transaction_commit_def
           split: prod.splits sum.splits option.splits if_splits)

lemma up_success:
  assumes "Migrator_up e w = (Inr r, w1)"
  shows "tx w1 = None \<and> savepoint w1 = None \<and> \<not> locked w1
       \<and> this_migrationFiles w1 = this_migrationFiles w
       \<and> (\<exists>files. fst (migrationFiles e w) = Inr files
                 \<and> set files \<subseteq> row_name ` set (ledger (committed w1)))"
proof -
  define w0 where "w0 = emit EvBegin ((emit EvSync w)\<lparr>tx := Some (committed (emit EvSync w)), savepoint := None\<rparr>)"
  define wl where "wl = emit EvLock (w0\<lparr>locked := True\<rparr>)"
  have txl: "tx wl = Some (committed w)" and mfl: "this_migrationFiles wl = this_migrationFiles w"
    by (simp_all add: wl_def w0_def emit_def)
  from assms have "transaction (
       andThen lockTable (\<lambda>_.
       andThen (pending e True) (\<lambda>pendingMigrations.
         if length pendingMigrations = 0 then resolve None
         else
           andThen saveSearchPath (\<lambda>_.
           andThen (setSearchPath e (Some (schema e))) (\<lambda>_.
           andThen (migrationsUp e pendingMigrations) (\<lambda>migrations.
           andThen (\<lambda>w. setSearchPath e (this_searchPath w) w) (\<lambda>_.
           andThen (\<lambda>w. (Inr (), w\<lparr>this_searchPath := None\<rparr>)) (\<lambda>_.
           resolve (Some migrations))))))))) (emit EvSync w) = (Inr r, w1)"
    by (simp add: Migrator_up_def ensureTableExists_def andThen_def)
  then obtain w' t' where
    cb: "andThen lockTable (\<lambda>_.
       andThen (pending e True) (\<lambda>pendingMigrations.
         if length pendingMigrations = 0 then resolve None
         else
           andThen saveSearchPath (\<lambda>_.
           andThen (setSearchPath e (Some (schema e))) (\<lambda>_.
           andThen (migrationsUp e pendingMigrations) (\<lambda>migrations.
           andThen (\<lambda>w. setSearchPath e (this_searchPath w) w) (\<lambda>_.
           andThen (\<lambda>w. (Inr (), w\<lparr>this_searchPath := None\<rparr>)) (\<lambda>_.
           resolve (Some migrations)))))))) w0 = (Inr r, w')"
    and t': "tx w' = Some t'"
    and w1: "w1 = emit EvCommit (w'\<lparr>committed := t', tx := None, savepoint := None, locked := False\<rparr>)"
    unfolding w0_def by (rule transaction_success)
  have lock: "lockTable w0 = (Inr (), wl)"
    by (simp add: lockTable_def wl_def w0_def emit_def)
  from cb lock obtain pend wp where
    p: "pending e True wl = (Inr pend, wp)"
    and body: "(if length pend = 0 then resolve None
         else
           andThen saveSearchPath (\<lambda>_.
           andThen (setSearchPath e (Some (schema e))) (\<lambda>_.
           andThen (migrationsUp e pend) (\<lambda>migrations.
           andThen (\<lambda>w. setSearchPath e (this_searchPath w) w) (\<lambda>_.
           andThen (\<lambda>w. (Inr (), w\<lparr>this_searchPath := None\<rparr>)) (\<lambda>_.
           resolve (Some migrations))))))) wp = (Inr r, w')"
    by (auto elim!: andThen_InrE)
  from p obtain files where
    files: "fst (migrationFiles e wl) = Inr files"
    and pend: "pend = sort (difference files (map row_name (sort_key row_id (ledger (committed w)))))"
    and wp: "wp = emit EvFindAll (snd (migrationFiles e wl))"
    by (auto simp: pending_in_tx[OF txl] split: sum.splits)
  have files0: "fst (migrationFiles e w) = Inr files"
    using files migrationFiles_frame[OF mfl] by simp
  have txp: "tx wp = Some (committed w)" and mfp: "this_migrationFiles wp = this_migrationFiles w"
    using txl mfl by (simp_all add: wp migrationFiles_world emit_def)
  have "map row_name (ledger t') = map row_name (ledger (committed w)) @ pend
        \<and> this_migrationFiles w' = this_migrationFiles w"
  proof (cases "pend = []")
    case True
    with body have "w' = wp" by (simp add: resolve_def)
    with True txp mfp t' show ?thesis by simp
  next
    case False
    with body have "andThen saveSearchPath (\<lambda>_.
           andThen (setSearchPath e (Some (schema e))) (\<lambda>_.
           andThen (migrationsUp e pend) (\<lambda>migrations.
           andThen (\<lambda>w. setSearchPath e (this_searchPath w) w) (\<lambda>_.
           andThen (\<lambda>w. (Inr (), w\<lparr>this_searchPath := None\<rparr>)) (\<lambda>_.
           resolve (Some migrations)))))) wp = (Inr r, w')" by simp
    from up_body_success[OF this txp] t' mfp show ?thesis by auto
  qed
  hence names: "row_name ` set (ledger t') = row_name ` set (ledger (committed w)) \<union> set pend"
    and mf': "this_migrationFiles w' = this_migrationFiles w"
    by (metis set_map set_append, simp)
  have "set files \<subseteq> row_name ` set (ledger t')"
    unfolding names pend by (auto simp: difference_def)
  with w1 mf' files0 show ?thesis by (simp add: emit_def)
qed

lemma up_twice_world:
  assumes "Migrator_up e w = (Inr r, w1)"
  shows "Migrator_up e w1 =
    (Inr None, w1\<lparr>trace := trace w1 @ [EvSync, EvBegin, EvLock]
                    @ (if this_migrationFiles w1 = None then [EvReadDir] else [])
                    @ [EvFindAll, EvCommit]\<rparr>)"
proof -
  from up_success[OF assms] obtain files where
    s: "tx w1 = None" "savepoint w1 = None" "\<not> locked w1"
       "this_migrationFiles w1 = this_migrationFiles w"
       "fst (migrationFiles e w) = Inr files"
       "set files \<subseteq> row_name ` set (ledger (committed w1))"
    by blast
  have f1: "fst (migrationFiles e w1) = Inr files"
    using migrationFiles_frame[OF s(4)] s(5) by simp
  have "w1\<lparr>tx := None, savepoint := None, locked := False,
                 trace := trace w1 @ [EvSync, EvBegin, EvLock]
                    @ (if this_migrationFiles w1 = None then [EvReadDir] else [])
                    @ [EvFindAll, EvCommit]\<rparr> = w1\<lparr>trace := trace w1 @ [EvSync, EvBegin, EvLock]
                    @ (if this_migrationFiles w1 = None then [EvReadDir] else [])
                    @ [EvFindAll, EvCommit]\<rparr>"
    using s(1-3) by simp
  with up_nothing_pending[OF f1 s(6)] show ?thesis by simp
qed

lemma pending_in_tx':
  "tx w \<noteq> None \<Longrightarrow>
   pending e True w =
     ((case fst (migrationFiles e w) of
         Inl err \<Rightarrow> Inl err
       | Inr files \<Rightarrow>
           Inr (sort (difference files (map row_name (sort_key row_id (ledger (the (tx w)))))))),
      emit EvFindAll (snd (migrationFiles e w)))"
  using pending_in_tx[of w "the (tx w)" e] by auto

text \<open>
  A run of up with something pending, up to the loop: when the loop rejects, the run
  rejects with the same error, and rolls back unless the loop has committed.
\<close>

lemma up_loop_rejects:
  assumes "fst (migrationFiles e w) = Inr files"
    and "sort (difference files (map row_name (sort_key row_id (ledger (committed w))))) = pend"
    and "pend \<noteq> []" and "schema e \<noteq> []"
    and "set_search_path e (schema e) = None"
    and "forEach pend (migrationUp e)
           (w\<lparr>tx := Some ((committed w)\<lparr>search_path := schema e\<rparr>), savepoint := None,
              locked := True,
              trace := trace w @ [EvSync, EvBegin, EvLock]
                 @ (if this_migrationFiles w = None then [EvReadDir] else [])
                 @ [EvFindAll, EvShowSearchPath, EvSetSearchPath (schema e)],
              this_searchPath := Some (search_path (committed w))\<rparr>) = (Inl err, w4)"
  shows "Migrator_up e w = (Inl err, if tx w4 = None then w4 else transaction_rollback w4)"
proof -
  define wl where "wl = emit EvLock ((emit EvBegin
      ((emit EvSync w)\<lparr>tx := Some (committed (emit EvSync w)), savepoint := None\<rparr>))\<lparr>locked := True\<rparr>)"
  have txl: "tx wl \<noteq> None" "the (tx wl) = committed w"
    and mfl: "this_migrationFiles wl = this_migrationFiles w"
    by (simp_all add: wl_def emit_def)
  have p: "pending e True wl = (Inr pend, emit EvFindAll (snd (migrationFiles e wl)))"
    using assms(1,2) migrationFiles_frame[OF mfl, of e]
    by (simp add: pending_in_tx'[OF txl(1)] txl(2))
  have w3: "emit (EvSetSearchPath (schema e))
          ((emit EvShowSearchPath
             ((emit EvFindAll (snd (migrationFiles e wl)))
                \<lparr>this_searchPath := Some (search_path (committed w))\<rparr>))
             \<lparr>tx := Some ((committed w)\<lparr>search_path := schema e\<rparr>)\<rparr>)
       = w\<lparr>tx := Some ((committed w)\<lparr>search_path := schema e\<rparr>), savepoint := None,
              locked := True,
              trace := trace w @ [EvSync, EvBegin, EvLock]
                 @ (if this_migrationFiles w = None then [EvReadDir] else [])
                 @ [EvFindAll, EvShowSearchPath, EvSetSearchPath (schema e)],
              this_searchPath := Some (search_path (committed w))\<rparr>"
    by (simp add: migrationFiles_world mfl) (simp add: wl_def emit_def)
  define cb :: "(_, string list option) action" where "cb = andThen lockTable (\<lambda>_.
       andThen (pending e True) (\<lambda>pendingMigrations.
         if length pendingMigrations = 0 then resolve None
         else
           andThen saveSearchPath (\<lambda>_.
           andThen (setSearchPath e (Some (schema e))) (\<lambda>_.
           andThen (migrationsUp e pendingMigrations) (\<lambda>migrations.
           andThen (\<lambda>w. setSearchPath e (this_searchPath w) w) (\<lambda>_.
           andThen (\<lambda>w. (Inr (), w\<lparr>this_searchPath := None\<rparr>)) (\<lambda>_.
           resolve (Some migrations))))))))"
  have up: "Migrator_up e = andThen ensureTableExists (\<lambda>_. transaction cb)"
    by (simp add: Migrator_up_def cb_def)
  have cb: "cb
        (emit EvBegin ((emit EvSync w)\<lparr>tx := Some (committed (emit EvSync w)), savepoint := None\<rparr>))
      = (Inl err, w4)"
  proof -
    have l: "lockTable (emit EvBegin ((emit EvSync w)\<lparr>tx := Some (committed (emit EvSync w)), savepoint := None\<rparr>))
        = (Inr (), wl)"
      by (simp add: lockTable_def wl_def emit_def)
    have txp: "tx (emit EvFindAll (snd (migrationFiles e wl))) = Some (committed w)"
      using txl by (auto simp: migrationFiles_world emit_def)
    have s: "saveSearchPath (emit EvFindAll (snd (migrationFiles e wl)))
       = (Inr (), emit EvShowSearchPath
             ((emit EvFindAll (snd (migrationFiles e wl)))
                \<lparr>this_searchPath := Some (search_path (committed w))\<rparr>))"
      using txp by (simp add: saveSearchPath_def)
    have txs: "tx (emit EvShowSearchPath
             ((emit EvFindAll (snd (migrationFiles e wl)))
                \<lparr>this_searchPath := Some (search_path (committed w))\<rparr>)) = Some (committed w)"
      using txp by (simp add: emit_def)
    have ss: "setSearchPath e (Some (schema e)) (emit EvShowSearchPath
             ((emit EvFindAll (snd (migrationFiles e wl)))
                \<lparr>this_searchPath := Some (search_path (committed w))\<rparr>))
       = (Inr (), emit (EvSetSearchPath (schema e))
          ((emit EvShowSearchPath
             ((emit EvFindAll (snd (migrationFiles e wl)))
                \<lparr>this_searchPath := Some (search_path (committed w))\<rparr>))
             \<lparr>tx := Some ((committed w)\<lparr>search_path := schema e\<rparr>)\<rparr>))"
      using assms(4,5) txs by (simp add: setSearchPath_def)
    have fe: "forEach pend (migrationUp e) (emit (EvSetSearchPath (schema e))
          ((emit EvShowSearchPath
             ((emit EvFindAll (snd (migrationFiles e wl)))
                \<lparr>this_searchPath := Some (search_path (committed w))\<rparr>))
             \<lparr>tx := Some ((committed w)\<lparr>search_path := schema e\<rparr>)\<rparr>)) = (Inl err, w4)"
      by (simp only: w3 assms(6))
    show ?thesis
      using assms(3)
      by (simp add: cb_def andThen_def l p s ss fe migrationsUp_def)
  qed
  show ?thesis
    by (simp add: up ensureTableExists_def andThen_def transaction_def cb)
qed

lemma up_second_fails_world:
  assumes files: "fst (migrationFiles e w) = Inr files"
    and pend: "sort (difference files (map row_name (sort_key row_id (ledger (committed w)))))
                 = [a, b, c]"
    and sch: "schema e \<noteq> []"
    and sw: "set_search_path e (schema e) = None"
    and fa: "readFile e a = Inr sa" "migrationSqlParse (JStr sa) JUndefined = Inr pa"
            "up pa \<noteq> []" "exec e (up pa) (userdata (committed w)) = (None, u1)"
    and fb: "readFile e b = Inr sb" "migrationSqlParse (JStr sb) JUndefined = Inr pb"
            "up pb \<noteq> []" "exec e (up pb) u1 = (Some err, u2)"
  shows "Migrator_up e w =
    (Inl err,
     w\<lparr>committed := \<lparr>ledger = ledger (committed w) @ [\<lparr>row_id = next_id w, row_name = a\<rparr>],
                      userdata = u1, search_path = schema e\<rparr>,
       tx := None, savepoint := None, locked := False, next_id := Suc (next_id w),
       trace := trace w @ [EvSync, EvBegin, EvLock]
          @ (if this_migrationFiles w = None then [EvReadDir] else [])
          @ [EvFindAll, EvShowSearchPath, EvSetSearchPath (schema e),
             EvReadFile a, EvSavepoint, EvExec (up pa), EvReleaseSavepoint, EvInsert a,
             EvReadFile b, EvSavepoint, EvExec (up pb), EvRollbackToSavepoint, EvCommit],
       this_searchPath := Some (search_path (committed w))\<rparr>)"
proof -
  define w3 where "w3 = w\<lparr>tx := Some ((committed w)\<lparr>search_path := schema e\<rparr>), savepoint := None,
              locked := True,
              trace := trace w @ [EvSync, EvBegin, EvLock]
                 @ (if this_migrationFiles w = None then [EvReadDir] else [])
                 @ [EvFindAll, EvShowSearchPath, EvSetSearchPath (schema e)],
              this_searchPath := Some (search_path (committed w))\<rparr>"
  define t3 where "t3 = (committed w)\<lparr>search_path := schema e\<rparr>"
  have tx3: "tx w3 = Some t3" by (simp add: w3_def t3_def)
  have "a \<in> set (sort (difference files (map row_name (sort_key row_id (ledger (committed w))))))"
    unfolding pend by simp
  hence "a \<notin> row_name ` set (ledger (committed w))"
    by (simp add: difference_def)
  hence na: "a \<notin> row_name ` set (ledger t3)" by (simp add: t3_def)
  have ea: "exec e (up pa) (userdata t3) = (None, u1)" using fa(4) by (simp add: t3_def)
  note sa = migrationUp_ok[OF tx3 fa(1) fa(2) fa(3) ea na]
  define t4 where "t4 = t3\<lparr>ledger := ledger t3 @ [\<lparr>row_id = next_id w3, row_name = a\<rparr>],
                               userdata := u1\<rparr>"
  define w4 where "w4 = w3\<lparr>tx := Some t4,
               savepoint := None, next_id := Suc (next_id w3),
               trace := trace w3 @ [EvReadFile a, EvSavepoint, EvExec (up pa),
                                   EvReleaseSavepoint, EvInsert a]\<rparr>"
  have sa': "migrationUp e a w3 = (Inr (), w4)" using sa by (simp add: w4_def t4_def)
  have tx4: "tx w4 = Some t4" by (simp add: w4_def)
  have eb: "exec e (up pb) (userdata t4) = (Some err, u2)" using fb(4) by (simp add: t4_def)
  note sb = migrationUp_fail[OF tx4 fb(1) fb(2) fb(3) eb]
  have loop: "forEach [a, b, c] (migrationUp e) w3 =
     (Inl err, w4\<lparr>committed := t4, tx := None, savepoint := None, locked := False,
                trace := trace w4 @ [EvReadFile b, EvSavepoint, EvExec (up pb),
                                    EvRollbackToSavepoint, EvCommit]\<rparr>)"
    by (simp add: andThen_def sa' sb)
  have "Migrator_up e w = (Inl err, w4\<lparr>committed := t4, tx := None, savepoint := None, locked := False,
                trace := trace w4 @ [EvReadFile b, EvSavepoint, EvExec (up pb),
                                    EvRollbackToSavepoint, EvCommit]\<rparr>)"
    using up_loop_rejects[OF files pend _ sch sw loop[unfolded w3_def]] by simp
  also have "w4\<lparr>committed := t4, tx := None, savepoint := None, locked := False,
                trace := trace w4 @ [EvReadFile b, EvSavepoint, EvExec (up pb),
                                    EvRollbackToSavepoint, EvCommit]\<rparr> =
     w\<lparr>committed := \<lparr>ledger = ledger (committed w) @ [\<lparr>row_id = next_id w, row_name = a\<rparr>],
                      userdata = u1, search_path = schema e\<rparr>,
       tx := None, savepoint := None, locked := False, next_id := Suc (next_id w),
       trace := trace w @ [EvSync, EvBegin, EvLock]
          @ (if this_migrationFiles w = None then [EvReadDir] else [])
          @ [EvFindAll, EvShowSearchPath, EvSetSearchPath (schema e),
             EvReadFile a, EvSavepoint, EvExec (up pa), EvReleaseSavepoint, EvInsert a,
             EvReadFile b, EvSavepoint, EvExec (up pb), EvRollbackToSavepoint, EvCommit],
       this_searchPath := Some (search_path (committed w))\<rparr>"
    by (simp add: w4_def t4_def w3_def t3_def)
  finally show ?thesis .
qed

text \<open>
  Claim C1: when three migrations \<open>a\<close>, \<open>b\<close>, \<open>c\<close> are pending, the up SQL of \<open>a\<close> succeeds
  and the up SQL of \<open>b\<close> fails with \<open>err\<close>, then \<open>up()\<close> rejects with \<open>err\<close>; afterwards the
  ledger holds, beyond what it held before, exactly the row recorded for \<open>a\<close>, the data is
  as the SQL of \<open>a\<close> left it, no transaction and no lock is open, and the trace shows that
  \<open>c\<close> was never read or executed. The schema is not empty (the constructor replaces an
  empty \<open>options.schema\<close> by \<open>public\<close>), and the database has accepted the switch to it,
  without which no migration's SQL is executed.
\<close>

theorem up_second_of_three_fails:
  assumes "fst (migrationFiles e w) = Inr files"
    and "sort (difference files (map row_name (sort_key row_id (ledger (committed w)))))
           = [a, b, c]"
    and "schema e \<noteq> []"
    and "set_search_path e (schema e) = None"
    and "readFile e a = Inr sa" "migrationSqlParse (JStr sa) JUndefined = Inr pa"
        "up pa \<noteq> []" "exec e (up pa) (userdata (committed w)) = (None, u1)"
    and "readFile e b = Inr sb" "migrationSqlParse (JStr sb) JUndefined = Inr pb"
        "up pb \<noteq> []" "exec e (up pb) u1 = (Some err, u2)"
  shows "fst (Migrator_up e w) = Inl err
     \<and> ledger (committed (snd (Migrator_up e w)))
         = ledger (committed w) @ [\<lparr>row_id = next_id w, row_name = a\<rparr>]
     \<and> userdata (committed (snd (Migrator_up e w))) = u1
     \<and> tx (snd (Migrator_up e w)) = None
     \<and> \<not> locked (snd (Migrator_up e w))
     \<and> trace (snd (Migrator_up e w)) = trace w @ [EvSync, EvBegin, EvLock]
          @ (if this_migrationFiles w = None then [EvReadDir] else [])
          @ [EvFindAll, EvShowSearchPath, EvSetSearchPath (schema e),
             EvReadFile a, EvSavepoint, EvExec (up pa), EvReleaseSavepoint, EvInsert a,
             EvReadFile b, EvSavepoint, EvExec (up pb), EvRollbackToSavepoint, EvCommit]"
  by (simp add: up_second_fails_world[OF assms])

lemma demo_files: "fst (migrationFiles (demo_env second) demo_world) = Inr [m1, m2, m3]"
  by code_simp

lemma demo_pending:
  "sort (difference [m1, m2, m3]
      (map row_name (sort_key row_id (ledger (committed demo_world))))) = [m1, m2, m3]"
  by code_simp

lemma demo_parse_m1:
  "migrationSqlParse (JStr (''create a'' @ kDefaultDelimiter @ ''drop a'')) JUndefined
     = Inr \<lparr>up = ''create a'', down = Some (kDefaultDelimiter @ ''drop a'')\<rparr>"
  by code_simp

lemma demo_parse_bad:
  "migrationSqlParse (JStr ''bad'') JUndefined = Inr \<lparr>up = ''bad'', down = None\<rparr>"
  by code_simp

theorem up_second_of_three_fails_witness:
  "fst (Migrator_up (demo_env (Inr ''bad'')) demo_world) = Inl (DatabaseError ''bad'')
   \<and> ledger (committed (snd (Migrator_up (demo_env (Inr ''bad'')) demo_world)))
       = [\<lparr>row_id = 1, row_name = m1\<rparr>]
   \<and> userdata (committed (snd (Migrator_up (demo_env (Inr ''bad'')) demo_world))) = [''create a'']
   \<and> tx (snd (Migrator_up (demo_env (Inr ''bad'')) demo_world)) = None
   \<and> \<not> locked (snd (Migrator_up (demo_env (Inr ''bad'')) demo_world))
   \<and> trace (snd (Migrator_up (demo_env (Inr ''bad'')) demo_world)) =
        [EvSync, EvBegin, EvLock, EvReadDir, EvFindAll, EvShowSearchPath,
         EvSetSearchPath ''public'',
         EvReadFile m1, EvSavepoint, EvExec ''create a'', EvReleaseSavepoint, EvInsert m1,
         EvReadFile m2, EvSavepoint, EvExec ''bad'', EvRollbackToSavepoint, EvCommit]"
proof -
  have 1: "schema (demo_env (Inr ''bad'')) \<noteq> []" by (simp add: demo_env_def)
  have sw: "set_search_path (demo_env (Inr ''bad'')) (schema (demo_env (Inr ''bad''))) = None"
    by (simp add: demo_env_def)
  have 2: "readFile (demo_env (Inr ''bad'')) m1
             = Inr (''create a'' @ kDefaultDelimiter @ ''drop a'')"
    by (simp add: demo_env_def)
  have 3: "up \<lparr>up = ''create a'', down = Some (kDefaultDelimiter @ ''drop a'')\<rparr> \<noteq> []"
    by simp
  have 4: "exec (demo_env (Inr ''bad''))
             (up \<lparr>up = ''create a'', down = Some (kDefaultDelimiter @ ''drop a'')\<rparr>)
             (userdata (committed demo_world)) = (None, [''create a''])"
    by code_simp
  have 5: "readFile (demo_env (Inr ''bad'')) m2 = Inr ''bad''"
    by (simp add: demo_env_def m1_def m2_def)
  have 6: "up \<lparr>up = ''bad'', down = None\<rparr> \<noteq> []" by simp
  have 7: "exec (demo_env (Inr ''bad'')) (up \<lparr>up = ''bad'', down = None\<rparr>) [''create a'']
             = (Some (DatabaseError ''bad''), [''create a'', ''partial''])"
    by code_simp
  from up_second_of_three_fails[OF demo_files demo_pending 1 sw 2 demo_parse_m1 3 4
         5 demo_parse_bad 6 7]
  show ?thesis by (simp add: demo_world_def demo_env_def)
qed

text \<open>
  After an \<open>up()\<close> that succeeded, a second \<open>up()\<close> with the same files leaves the
  ledger, the data and the ledger's sequence as they were: it only syncs the table, opens
  the transaction, takes the lock, reads the directory and the ledger, and commits. No
  migration file is read, no migration SQL is executed and no row is inserted. The value
  it resolves to is \<open>null\<close>.
\<close>

lemma up_again_does_nothing:
  assumes "Migrator_up e w = (Inr r, w1)"
  shows "fst (Migrator_up e w1) = Inr None
     \<and> committed (snd (Migrator_up e w1)) = committed w1
     \<and> next_id (snd (Migrator_up e w1)) = next_id w1
     \<and> tx (snd (Migrator_up e w1)) = None
     \<and> trace (snd (Migrator_up e w1)) = trace w1 @ [EvSync, EvBegin, EvLock]
          @ (if this_migrationFiles w1 = None then [EvReadDir] else [])
          @ [EvFindAll, EvCommit]"
  using up_success[OF assms] by (simp add: up_twice_world[OF assms])

text \<open>
  Claim C4: after a first \<open>up()\<close> has applied all pending migrations, a second \<open>up()\<close>
  with the same files returns the empty list, records no ledger entry and executes no
  migration SQL. The method is documented to return the array of the file names it
  executed. Here the first call applies the three migrations; the second call records
  and executes nothing, as the claim says, but resolves to \<open>null\<close> and not to the empty
  array.
\<close>

theorem up_again_returns_null:
  "fst (Migrator_up (demo_env (Inr ''create b'')) demo_world) = Inr (Some [m1, m2, m3])
   \<and> fst (Migrator_up (demo_env (Inr ''create b''))
            (snd (Migrator_up (demo_env (Inr ''create b'')) demo_world))) = Inr None
   \<and> fst (Migrator_up (demo_env (Inr ''create b''))
            (snd (Migrator_up (demo_env (Inr ''create b'')) demo_world))) \<noteq> Inr (Some [])
   \<and> committed (snd (Migrator_up (demo_env (Inr ''create b''))
            (snd (Migrator_up (demo_env (Inr ''create b'')) demo_world))))
        = committed (snd (Migrator_up (demo_env (Inr ''create b'')) demo_world))
   \<and> map row_name (ledger (committed (snd (Migrator_up (demo_env (Inr ''create b''))
            (snd (Migrator_up (demo_env (Inr ''create b'')) demo_world))))))
        = [m1, m2, m3]
   \<and> trace (snd (Migrator_up (demo_env (Inr ''create b''))
            (snd (Migrator_up (demo_env (Inr ''create b'')) demo_world))))
        = trace (snd (Migrator_up (demo_env (Inr ''create b'')) demo_world))
            @ [EvSync, EvBegin, EvLock, EvReadDir, EvFindAll, EvCommit]"
  by code_simp

text \<open>
  Claim C2: whatever fails in the middle of a run (the execution of the SQL, a missing up
  or down section, an error reading a migration file), the migrations that succeeded
  earlier in the run stay applied (or reverted). The runner commits only where the
  execution of the SQL fails. Here the first migration is applied and the second file
  cannot be read, or has no up section: the run rejects, the transaction is rolled back
  and the database is as it was before the run. Likewise \<open>down(2)\<close> reverts the third
  migration, finds no down section in the second, and rolls the revert back.
\<close>

theorem up_read_error_discards_progress:
  "fst (Migrator_up (demo_env (Inl (IOError m2))) demo_world) = Inl (IOError m2)
   \<and> trace (snd (Migrator_up (demo_env (Inl (IOError m2))) demo_world)) =
        [EvSync, EvBegin, EvLock, EvReadDir, EvFindAll, EvShowSearchPath,
         EvSetSearchPath ''public'',
         EvReadFile m1, EvSavepoint, EvExec ''create a'', EvReleaseSavepoint, EvInsert m1,
         EvReadFile m2, EvRollback]
   \<and> committed (snd (Migrator_up (demo_env (Inl (IOError m2))) demo_world))
        = committed demo_world
   \<and> fst (Migrator_up (demo_env (Inr kDefaultDelimiter)) demo_world) = Inl (MissingUpSql m2)
   \<and> committed (snd (Migrator_up (demo_env (Inr kDefaultDelimiter)) demo_world))
        = committed demo_world
   \<and> fst (Migrator_down (demo_env (Inr ''create b'')) (Some 2)
            (snd (Migrator_up (demo_env (Inr ''create b'')) demo_world)))
        = Inl (MissingDownSql m2)
   \<and> committed (snd (Migrator_down (demo_env (Inr ''create b'')) (Some 2)
            (snd (Migrator_up (demo_env (Inr ''create b'')) demo_world))))
        = committed (snd (Migrator_up (demo_env (Inr ''create b'')) demo_world))"
  by code_simp

text \<open>
  Claim C3: a run that took the snapshot of the search path restores it on every exit.
  Here the session's path is \<open>app, public\<close>, the schema is \<open>public\<close> and the second
  migration's SQL fails: the snapshot is taken, the run commits and rejects, and the
  session is left with the path \<open>public\<close>. The run in which all three migrations succeed
  restores \<open>app, public\<close>.
\<close>

theorem up_failure_leaves_search_path:
  "fst (Migrator_up (demo_env (Inr ''bad'')) demo_world) = Inl (DatabaseError ''bad'')
   \<and> search_path (committed demo_world) = ''app, public''
   \<and> this_searchPath (snd (Migrator_up (demo_env (Inr ''bad'')) demo_world))
        = Some ''app, public''
   \<and> tx (snd (Migrator_up (demo_env (Inr ''bad'')) demo_world)) = None
   \<and> search_path (committed (snd (Migrator_up (demo_env (Inr ''bad'')) demo_world)))
        = ''public''
   \<and> search_path (committed (snd (Migrator_up (demo_env (Inr ''create b'')) demo_world)))
        = ''app, public''"
  by code_simp

text \<open>
  \<open>migrationFiles\<close> never stores its result, and reads the directory whenever the field
  is \<open>null\<close>.
\<close>

lemma migrationFiles_never_caches:
  "this_migrationFiles (snd (migrationFiles e w)) = this_migrationFiles w
   \<and> (this_migrationFiles w = None \<longrightarrow>
        trace (snd (migrationFiles e w)) = trace w @ [EvReadDir])"
  by (simp add: migrationFiles_def emit_def split: option.splits sum.splits)

text \<open>
  Claim C5: \<open>migrationFiles()\<close> reads the directory at most once per instance, answering
  later calls from its cache. Here the first call succeeds, the field \<open>migrationFiles_\<close> is
  still \<open>null\<close> afterwards, and the second call on the same instance reads the directory
  again.
\<close>

theorem migrationFiles_reads_directory_every_call:
  "fst (migrationFiles (demo_env (Inr ''create b'')) demo_world) = Inr [m1, m2, m3]
   \<and> this_migrationFiles (snd (migrationFiles (demo_env (Inr ''create b'')) demo_world)) = None
   \<and> fst (migrationFiles (demo_env (Inr ''create b''))
            (snd (migrationFiles (demo_env (Inr ''create b'')) demo_world)))
        = Inr [m1, m2, m3]
   \<and> trace (snd (migrationFiles (demo_env (Inr ''create b''))
            (snd (migrationFiles (demo_env (Inr ''create b'')) demo_world))))
        = [EvReadDir, EvReadDir]"
  by code_simp

text \<open>
  In the promise-chain runner every turn of either loop rejects before touching the file
  system or the database.
\<close>

lemma migrationUp_chain_rejects:
  "migrationUp_chain e m w = (Inl (ReferenceError ''readFile''), w)"
  by (simp add: migrationUp_chain_def parseMigration_chain_def andThen_def reject_def)

lemma migrationDown_chain_rejects:
  "migrationDown_chain e m w = (Inl (ReferenceError ''readFile''), w)"
  by (simp add: migrationDown_chain_def parseMigration_chain_def andThen_def reject_def)

text \<open>
  Claim C9: the two runners give the same results, errors and effects on every input. With
  three pending migrations \<open>Migrator.js\<close> applies them and resolves to their names; the
  promise-chain runner rejects with a \<open>ReferenceError\<close> when the global \<open>Promise\<close> is
  Bluebird's and with a \<open>TypeError\<close> when it is the language's own, and applies nothing.
  With the language's own \<open>Promise\<close> its \<open>pending()\<close> fails as well.
\<close>

theorem chain_runner_differs:
  "fst (Migrator_up (demo_env (Inr ''create b'')) demo_world) = Inr (Some [m1, m2, m3])
   \<and> fst (up_chain Bluebird (demo_env (Inr ''create b'')) demo_world)
        = Inl (ReferenceError ''readFile'')
   \<and> fst (up_chain Native (demo_env (Inr ''create b'')) demo_world)
        = Inl (TypeError ''spread'')
   \<and> ledger (committed (snd (up_chain Bluebird (demo_env (Inr ''create b'')) demo_world))) = []
   \<and> ledger (committed (snd (up_chain Native (demo_env (Inr ''create b'')) demo_world))) = []
   \<and> map row_name (ledger (committed (snd (Migrator_up (demo_env (Inr ''create b'')) demo_world))))
        = [m1, m2, m3]
   \<and> fst (pending (demo_env (Inr ''create b'')) False demo_world) = Inr [m1, m2, m3]
   \<and> fst (pending_chain Native (demo_env (Inr ''create b'')) False demo_world)
        = Inl (TypeError ''spread'')"
  by code_simp

lemma migrationDown_ok:
  assumes "tx w = Some t" "readFile e (row_name m) = Inr s"
    and "migrationSqlParse (JStr s) JUndefined = Inr p" "down p = Some d" "d \<noteq> []"
    and "exec e d (userdata t) = (None, u)"
  shows "migrationDown e m w =
    (Inr (), w\<lparr>tx := Some (t\<lparr>ledger := filter (\<lambda>r. row_id r \<noteq> row_id m) (ledger t),
                               userdata := u\<rparr>),
               savepoint := None,
               trace := trace w @ [EvReadFile (row_name m), EvSavepoint, EvExec d,
                                   EvReleaseSavepoint, EvDelete (row_id m)]\<rparr>)"
  using assms by (simp add: migrationDown_def action_defs stmt_defs Let_def)

lemma indexOf_from_found:
  "0 \<le> indexOf_from k s d \<Longrightarrow>
   int k \<le> indexOf_from k s d \<and> prefix d (drop (nat (indexOf_from k s d) - k) s)"
proof (induction k s d rule: indexOf_from.induct)
  case (1 k d)
  then show ?case by (simp split: if_splits)
next
  case (2 k c cs d)
  show ?case
  proof (cases "prefix d (c # cs)")
    case True
    then show ?thesis by simp
  next
    case False
    with 2 have ih: "int (Suc k) \<le> indexOf_from (Suc k) cs d"
      "prefix d (drop (nat (indexOf_from (Suc k) cs d) - Suc k) cs)" by simp_all
    from ih(1) have "nat (indexOf_from (Suc k) cs d) - k = Suc (nat (indexOf_from (Suc k) cs d) - Suc k)"
      by linarith
    with False ih show ?thesis by simp
  qed
qed

text \<open>A down section, when there is one, starts with the delimiter.\<close>

lemma parse_down_prefix:
  assumes "migrationSqlParse (JStr s) JUndefined = Inr p" "down p = Some d"
  shows "prefix kDefaultDelimiter d"
proof -
  have i: "0 \<le> indexOf s kDefaultDelimiter" and d: "d = drop (nat (indexOf s kDefaultDelimiter)) s"
    using assms
    by (auto simp: migrationSqlParse_def Let_def kDefaultDelimiter_def split: if_splits)
  from indexOf_from_found[of 0 s kDefaultDelimiter] i d show ?thesis
    by (simp add: indexOf_def)
qed

lemma parse_down_nonempty:
  assumes "migrationSqlParse (JStr s) JUndefined = Inr p" "down p = Some d"
  shows "d \<noteq> []"
  using parse_down_prefix[OF assms] by (auto simp: kDefaultDelimiter_def)

lemma recentlyExecuted_two:
  assumes "tx w = Some t" "sort_key row_id (ledger t) = older @ [e1, e2]"
  shows "recentlyExecuted (Some 2) True w = (Inr [e1, e2], emit EvFindAll w)"
  using assms by (simp add: recentlyExecuted_def executed_def andThen_def resolve_def)

lemma down_two_world:
  assumes led: "sort_key row_id (ledger (committed w)) = older @ [e1, e2]"
    and f2: "readFile e (row_name e2) = Inr s2" "migrationSqlParse (JStr s2) JUndefined = Inr p2"
            "down p2 = Some d2" "exec e d2 (userdata (committed w)) = (None, u1)"
    and f1: "readFile e (row_name e1) = Inr s1" "migrationSqlParse (JStr s1) JUndefined = Inr p1"
            "down p1 = Some d1" "exec e d1 u1 = (None, u2)"
    and rp: "set_search_path e (search_path (committed w)) = None"
  shows "Migrator_down e (Some 2) w =
    (Inr (Some [row_name e2, row_name e1]),
     w\<lparr>committed := \<lparr>ledger = filter (\<lambda>r. row_id r \<noteq> row_id e1)
                                 (filter (\<lambda>r. row_id r \<noteq> row_id e2) (ledger (committed w))),
                      userdata = u2, search_path = search_path (committed w)\<rparr>,
       tx := None, savepoint := None, locked := False,
       trace := trace w @ [EvSync, EvBegin, EvLock, EvFindAll, EvShowSearchPath,
             EvReadFile (row_name e2), EvSavepoint, EvExec d2, EvReleaseSavepoint,
             EvDelete (row_id e2),
             EvReadFile (row_name e1), EvSavepoint, EvExec d1, EvReleaseSavepoint,
             EvDelete (row_id e1)]
          @ (if search_path (committed w) = [] then []
             else [EvSetSearchPath (search_path (committed w))])
          @ [EvCommit],
       this_searchPath := None\<rparr>)"
proof -
  define wl where "wl = emit EvLock ((emit EvBegin
      ((emit EvSync w)\<lparr>tx := Some (committed (emit EvSync w)), savepoint := None\<rparr>))\<lparr>locked := True\<rparr>)"
  have txl: "tx wl = Some (committed w)" by (simp add: wl_def emit_def)
  have l: "lockTable (emit EvBegin ((emit EvSync w)\<lparr>tx := Some (committed (emit EvSync w)), savepoint := None\<rparr>))
        = (Inr (), wl)"
    by (simp add: lockTable_def wl_def emit_def)
  note r = recentlyExecuted_two[OF txl led]
  define w3 where "w3 = emit EvShowSearchPath
             ((emit EvFindAll wl)\<lparr>this_searchPath := Some (search_path (committed w))\<rparr>)"
  have s: "saveSearchPath (emit EvFindAll wl) = (Inr (), w3)"
    using txl by (simp add: saveSearchPath_def w3_def emit_def)
  have tx3: "tx w3 = Some (committed w)" using txl by (simp add: w3_def emit_def)
  note d2 = parse_down_nonempty[OF f2(2) f2(3)]
  note d1 = parse_down_nonempty[OF f1(2) f1(3)]
  define t4 where "t4 = (committed w)\<lparr>ledger := filter (\<lambda>r. row_id r \<noteq> row_id e2) (ledger (committed w)),
                               userdata := u1\<rparr>"
  define w4 where "w4 = w3\<lparr>tx := Some t4, savepoint := None,
               trace := trace w3 @ [EvReadFile (row_name e2), EvSavepoint, EvExec d2,
                                   EvReleaseSavepoint, EvDelete (row_id e2)]\<rparr>"
  have st2: "migrationDown e e2 w3 = (Inr (), w4)"
    using migrationDown_ok[OF tx3 f2(1) f2(2) f2(3) d2 f2(4)] by (simp add: w4_def t4_def)
  have tx4: "tx w4 = Some t4" by (simp add: w4_def)
  have ex1: "exec e d1 (userdata t4) = (None, u2)" using f1(4) by (simp add: t4_def)
  define t5 where "t5 = t4\<lparr>ledger := filter (\<lambda>r. row_id r \<noteq> row_id e1) (ledger t4),
                               userdata := u2\<rparr>"
  define w5 where "w5 = w4\<lparr>tx := Some t5, savepoint := None,
               trace := trace w4 @ [EvReadFile (row_name e1), EvSavepoint, EvExec d1,
                                   EvReleaseSavepoint, EvDelete (row_id e1)]\<rparr>"
  have st1: "migrationDown e e1 w4 = (Inr (), w5)"
    using migrationDown_ok[OF tx4 f1(1) f1(2) f1(3) d1 ex1] by (simp add: w5_def t5_def)
  have loop: "migrationsDown e [e2, e1] w3 = (Inr [e2, e1], w5)"
    by (simp add: migrationsDown_def andThen_def resolve_def st2 st1)
  have sp5: "this_searchPath w5 = Some (search_path (committed w))" "tx w5 = Some t5"
    by (simp_all add: w5_def w4_def w3_def emit_def)
  define w6 where "w6 = (if search_path (committed w) = [] then w5
       else emit (EvSetSearchPath (search_path (committed w)))
              (w5\<lparr>tx := Some (t5\<lparr>search_path := search_path (committed w)\<rparr>)\<rparr>))"
  have rs: "setSearchPath e (this_searchPath w5) w5 = (Inr (), w6)"
    using sp5 rp by (simp add: setSearchPath_def w6_def)
  have tx6: "tx w6 = Some t5"
    by (simp add: w6_def sp5 emit_def t5_def t4_def)
  define cb :: "(_, string list option) action" where "cb = andThen lockTable (\<lambda>_.
       andThen (recentlyExecuted (Some 2) True) (\<lambda>recent.
         if length recent = 0 then resolve None
         else
           let migrationsToUndo = rev recent in
           andThen saveSearchPath (\<lambda>_.
           andThen (migrationsDown e migrationsToUndo) (\<lambda>migrations.
           andThen (\<lambda>w. setSearchPath e (this_searchPath w) w) (\<lambda>_.
           andThen (\<lambda>w. (Inr (), w\<lparr>this_searchPath := None\<rparr>)) (\<lambda>_.
           resolve (Some (map row_name migrations))))))))"
  have dn: "Migrator_down e (Some 2) = andThen ensureTableExists (\<lambda>_. transaction cb)"
    by (simp add: Migrator_down_def cb_def)
  have cbv: "cb (emit EvBegin ((emit EvSync w)\<lparr>tx := Some (committed (emit EvSync w)), savepoint := None\<rparr>))
      = (Inr (Some [row_name e2, row_name e1]), w6\<lparr>this_searchPath := None\<rparr>)"
    by (simp add: cb_def andThen_def l r s loop rs resolve_def)
  have "Migrator_down e (Some 2) w =
     (Inr (Some [row_name e2, row_name e1]),
      emit EvCommit (w6\<lparr>this_searchPath := None, committed := t5, tx := None,
                       savepoint := None, locked := False\<rparr>))"
    by (simp add: dn ensureTableExists_def andThen_def transaction_def cbv
          transaction_commit_def tx6)
  also have "emit EvCommit (w6\<lparr>this_searchPath := None, committed := t5, tx := None,
                       savepoint := None, locked := False\<rparr>) =
     w\<lparr>committed := \<lparr>ledger = filter (\<lambda>r. row_id r \<noteq> row_id e1)
                                 (filter (\<lambda>r. row_id r \<noteq> row_id e2) (ledger (committed w))),
                      userdata = u2, search_path = search_path (committed w)\<rparr>,
       tx := None, savepoint := None, locked := False,
       trace := trace w @ [EvSync, EvBegin, EvLock, EvFindAll, EvShowSearchPath,
             EvReadFile (row_name e2), EvSavepoint, EvExec d2, EvReleaseSavepoint,
             EvDelete (row_id e2),
             EvReadFile (row_name e1), EvSavepoint, EvExec d1, EvReleaseSavepoint,
             EvDelete (row_id e1)]
          @ (if search_path (committed w) = [] then []
             else [EvSetSearchPath (search_path (committed w))])
          @ [EvCommit],
       this_searchPath := None\<rparr>"
    by (simp add: w6_def w5_def t5_def w4_def t4_def w3_def wl_def emit_def)
  finally show ?thesis .
qed

lemma distinct_sort_key_ids:
  "distinct (map row_id (sort_key row_id l)) = distinct (map row_id l)"
  by (simp add: distinct_map)

text \<open>
  Claim C6, as stated: whenever the ledger holds at least two rows whose files each contain
  a down section, \<open>down(2)\<close> reverts the two most recent ones and the ledger no longer
  contains them. The claim leaves out what the database answers. Here both files contain a
  down section and the down SQL of the second migration fails: \<open>down(2)\<close> reverts the third
  migration, commits and rejects, and the second migration is still in the ledger. And in
  a session whose search path is empty, shown as \<open>""\<close>, both down sections are executed
  but the database rejects the statement that restores the path: \<open>down(2)\<close> rejects and
  both reverts are rolled back.
\<close>

theorem down_two_rejected_counterexample:
  "migrationSqlParse (JStr (''create b'' @ kDefaultDelimiter @ ''bad'')) JUndefined
     = Inr \<lparr>up = ''create b'', down = Some (kDefaultDelimiter @ ''bad'')\<rparr>
   \<and> migrationSqlParse (JStr (''create c'' @ kDefaultDelimiter @ ''drop c'')) JUndefined
     = Inr \<lparr>up = ''create c'', down = Some (kDefaultDelimiter @ ''drop c'')\<rparr>
   \<and> fst (Migrator_down (demo_env (Inr (''create b'' @ kDefaultDelimiter @ ''bad'')))
            (Some 2) demo_applied)
       = Inl (DatabaseError (kDefaultDelimiter @ ''bad''))
   \<and> map row_name (ledger (committed (snd
         (Migrator_down (demo_env (Inr (''create b'' @ kDefaultDelimiter @ ''bad'')))
            (Some 2) demo_applied)))) = [m1, m2]
   \<and> fst (Migrator_down (demo_env (Inr (''create b'' @ kDefaultDelimiter @ ''drop b'')))
            (Some 2)
            (demo_applied\<lparr>committed :=
               (committed demo_applied)\<lparr>search_path := [CHR 0x22, CHR 0x22]\<rparr>\<rparr>))
       = Inl (DatabaseError ''zero-length delimited identifier'')
   \<and> map row_name (ledger (committed (snd
         (Migrator_down (demo_env (Inr (''create b'' @ kDefaultDelimiter @ ''drop b'')))
            (Some 2)
            (demo_applied\<lparr>committed :=
               (committed demo_applied)\<lparr>search_path := [CHR 0x22, CHR 0x22]\<rparr>\<rparr>)))))
       = [m1, m2, m3]"
  by code_simp

text \<open>
  Claim C6, amended: when the ledger's rows, by ascending id, end with \<open>e1\<close>, \<open>e2\<close>, the
  files of both contain a down section, the database executes both down sections without
  error and accepts the statement that restores the search path, \<open>down(2)\<close> reverts \<open>e2\<close>
  and then \<open>e1\<close> and resolves to their names in that order; afterwards the ledger holds
  exactly the older rows and no row named like \<open>e1\<close> or \<open>e2\<close>. Ids and names are unique in
  the ledger (the table's primary key and unique constraint).
\<close>

theorem down_two_reverts_latest:
  assumes led: "sort_key row_id (ledger (committed w)) = older @ [e1, e2]"
    and ids: "distinct (map row_id (ledger (committed w)))"
    and names: "distinct (map row_name (ledger (committed w)))"
    and f2: "readFile e (row_name e2) = Inr s2" "migrationSqlParse (JStr s2) JUndefined = Inr p2"
            "down p2 = Some d2" "exec e d2 (userdata (committed w)) = (None, u1)"
    and f1: "readFile e (row_name e1) = Inr s1" "migrationSqlParse (JStr s1) JUndefined = Inr p1"
            "down p1 = Some d1" "exec e d1 u1 = (None, u2)"
    and rp: "set_search_path e (search_path (committed w)) = None"
  shows "fst (Migrator_down e (Some 2) w) = Inr (Some [row_name e2, row_name e1])
     \<and> sort_key row_id (ledger (committed (snd (Migrator_down e (Some 2) w)))) = older
     \<and> row_name e1 \<notin> row_name ` set (ledger (committed (snd (Migrator_down e (Some 2) w))))
     \<and> row_name e2 \<notin> row_name ` set (ledger (committed (snd (Migrator_down e (Some 2) w))))
     \<and> userdata (committed (snd (Migrator_down e (Some 2) w))) = u2
     \<and> tx (snd (Migrator_down e (Some 2) w)) = None
     \<and> \<not> locked (snd (Migrator_down e (Some 2) w))
     \<and> trace (snd (Migrator_down e (Some 2) w)) =
         trace w @ [EvSync, EvBegin, EvLock, EvFindAll, EvShowSearchPath,
             EvReadFile (row_name e2), EvSavepoint, EvExec d2, EvReleaseSavepoint,
             EvDelete (row_id e2),
             EvReadFile (row_name e1), EvSavepoint, EvExec d1, EvReleaseSavepoint,
             EvDelete (row_id e1)]
          @ (if search_path (committed w) = [] then []
             else [EvSetSearchPath (search_path (committed w))])
          @ [EvCommit]"
proof -
  let ?L = "ledger (committed w)"
  let ?F = "filter (\<lambda>r. row_id r \<noteq> row_id e1) (filter (\<lambda>r. row_id r \<noteq> row_id e2) ?L)"
  note w = down_two_world[OF led f2 f1 rp]
  have ds: "distinct (map row_id (older @ [e1, e2]))"
    using ids distinct_sort_key_ids[of ?L] by (simp add: led)
  have "sort_key row_id ?F
     = filter (\<lambda>r. row_id r \<noteq> row_id e1) (filter (\<lambda>r. row_id r \<noteq> row_id e2) (older @ [e1, e2]))"
    by (simp add: filter_sort[symmetric] led)
  also have "\<dots> = older"
  proof -
    have out: "row_id e1 \<notin> row_id ` set older" "row_id e2 \<notin> row_id ` set older"
      using ds by auto
    have "\<forall>r\<in>set older. row_id r \<noteq> row_id e1 \<and> row_id r \<noteq> row_id e2"
    proof
      fix r assume "r \<in> set older"
      hence "row_id r \<in> row_id ` set older" by (rule imageI)
      with out show "row_id r \<noteq> row_id e1 \<and> row_id r \<noteq> row_id e2" by metis
    qed
    moreover have "row_id e1 \<noteq> row_id e2" using ds by simp
    ultimately show ?thesis by (simp add: filter_id_conv)
  qed
  finally have sorted: "sort_key row_id ?F = older" .
  have "set ?L = set (older @ [e1, e2])"
    using arg_cong[OF led, of set] by simp
  hence mem: "e1 \<in> set ?L" "e2 \<in> set ?L" by simp_all
  have inj: "inj_on row_name (set ?L)" using names by (simp add: distinct_map)
  have n1: "row_name e1 \<notin> row_name ` set ?F"
  proof
    assume "row_name e1 \<in> row_name ` set ?F"
    then obtain r where r: "r \<in> set ?L" "row_id r \<noteq> row_id e1" "row_name r = row_name e1" by auto
    with inj mem(1) have "r = e1" by (auto dest: inj_onD)
    with r(2) show False by simp
  qed
  have n2: "row_name e2 \<notin> row_name ` set ?F"
  proof
    assume "row_name e2 \<in> row_name ` set ?F"
    then obtain r where r: "r \<in> set ?L" "row_id r \<noteq> row_id e2" "row_name r = row_name e2" by auto
    with inj mem(2) have "r = e2" by (auto dest: inj_onD)
    with r(2) show False by simp
  qed
  show ?thesis
    using sorted n1 n2 by (simp add: w)
qed

lemma demo_parse_m3:
  "migrationSqlParse (JStr (''create c'' @ kDefaultDelimiter @ ''drop c'')) JUndefined
     = Inr \<lparr>up = ''create c'', down = Some (kDefaultDelimiter @ ''drop c'')\<rparr>"
  by code_simp

lemma demo_parse_m2:
  "migrationSqlParse (JStr (''create b'' @ kDefaultDelimiter @ ''drop b'')) JUndefined
     = Inr \<lparr>up = ''create b'', down = Some (kDefaultDelimiter @ ''drop b'')\<rparr>"
  by code_simp

theorem down_two_reverts_latest_witness:
  "fst (Migrator_down (demo_env (Inr (''create b'' @ kDefaultDelimiter @ ''drop b'')))
          (Some 2) demo_applied) = Inr (Some [m3, m2])
   \<and> sort_key row_id (ledger (committed (snd
         (Migrator_down (demo_env (Inr (''create b'' @ kDefaultDelimiter @ ''drop b'')))
            (Some 2) demo_applied)))) = [\<lparr>row_id = 1, row_name = m1\<rparr>]
   \<and> trace (snd (Migrator_down (demo_env (Inr (''create b'' @ kDefaultDelimiter @ ''drop b'')))
          (Some 2) demo_applied)) =
       [EvSync, EvBegin, EvLock, EvFindAll, EvShowSearchPath,
        EvReadFile m3, EvSavepoint, EvExec (kDefaultDelimiter @ ''drop c''),
        EvReleaseSavepoint, EvDelete 3,
        EvReadFile m2, EvSavepoint, EvExec (kDefaultDelimiter @ ''drop b''),
        EvReleaseSavepoint, EvDelete 2,
        EvSetSearchPath ''app, public'', EvCommit]"
proof -
  let ?E = "demo_env (Inr (''create b'' @ kDefaultDelimiter @ ''drop b''))"
  have led: "sort_key row_id (ledger (committed demo_applied))
     = [\<lparr>row_id = 1, row_name = m1\<rparr>] @ [\<lparr>row_id = 2, row_name = m2\<rparr>, \<lparr>row_id = 3, row_name = m3\<rparr>]"
    by code_simp
  have ids: "distinct (map row_id (ledger (committed demo_applied)))"
    by (simp add: demo_applied_def)
  have names: "distinct (map row_name (ledger (committed demo_applied)))"
    by (simp add: demo_applied_def m1_def m2_def m3_def)
  have r3: "readFile ?E (row_name \<lparr>row_id = 3, row_name = m3\<rparr>)
     = Inr (''create c'' @ kDefaultDelimiter @ ''drop c'')"
    by (simp add: demo_env_def m1_def m2_def m3_def)
  have r2: "readFile ?E (row_name \<lparr>row_id = 2, row_name = m2\<rparr>)
     = Inr (''create b'' @ kDefaultDelimiter @ ''drop b'')"
    by (simp add: demo_env_def m1_def m2_def m3_def)
  have d3: "down \<lparr>up = ''create c'', down = Some (kDefaultDelimiter @ ''drop c'')\<rparr>
     = Some (kDefaultDelimiter @ ''drop c'')" by simp
  have d2: "down \<lparr>up = ''create b'', down = Some (kDefaultDelimiter @ ''drop b'')\<rparr>
     = Some (kDefaultDelimiter @ ''drop b'')" by simp
  have x3: "exec ?E (kDefaultDelimiter @ ''drop c'') (userdata (committed demo_applied))
     = (None, [''create a'', ''create b'', ''create c'', kDefaultDelimiter @ ''drop c''])"
    by code_simp
  have x2: "exec ?E (kDefaultDelimiter @ ''drop b'')
       [''create a'', ''create b'', ''create c'', kDefaultDelimiter @ ''drop c'']
     = (None, [''create a'', ''create b'', ''create c'', kDefaultDelimiter @ ''drop c'',
               kDefaultDelimiter @ ''drop b''])"
    by code_simp
  have rp: "set_search_path ?E (search_path (committed demo_applied)) = None"
    by code_simp
  from down_two_reverts_latest[OF led ids names r3 demo_parse_m3 d3 x3 r2 demo_parse_m2 d2 x2 rp]
  show ?thesis by (simp add: demo_applied_def demo_world_def)
qed

end
